theory Spec2Isabelle
  imports Main "HOL-Library.Char_ord" "HOL-Library.List_Lexorder" "HOL-Library.Product_Lexorder"
begin

section \<open>Python values, dictionaries and exceptions\<close>

text \<open>
  The application is a Flask front end (\<^verbatim>\<open>app.py\<close>) over a data access class
  (\<^verbatim>\<open>database_handler.py\<close>) that talks to a hosted relational store through a query
  builder. Rows travel as JSON objects, that is Python dictionaries with string keys; a
  dictionary is modelled as an association list, a column value as a \<open>val\<close>.
\<close>

datatype val = VNull | VBool bool | VInt int | VStr string

type_synonym row = "(string \<times> val) list"

text \<open>
  Every exception the modelled code can raise is a value. \<open>APIError\<close> is what the query
  builder's \<^verbatim>\<open>execute()\<close> raises when the store rejects a request; \<open>BadRequest\<close> stands
  for a form field that is missing or does not convert.
\<close>

datatype error =
    APIError string
  | KeyError string
  | AttributeError string
  | IndexError
  | ValueError string
  | TypeError string
  | NameError string
  | UnboundLocalError string
  | BadRequest string

text \<open>Truth value testing (\<^verbatim>\<open>if x\<close>, \<^verbatim>\<open>not x\<close>) and the comparison \<^verbatim>\<open>x == True\<close>.\<close>

fun truthy :: "val \<Rightarrow> bool" where
  "truthy VNull = False"
| "truthy (VBool b) = b"
| "truthy (VInt i) = (i \<noteq> 0)"
| "truthy (VStr s) = (s \<noteq> [])"

fun eq_True :: "val \<Rightarrow> bool" where
  "eq_True (VBool b) = b"
| "eq_True (VInt i) = (i = 1)"
| "eq_True _ = False"

text \<open>Subscription \<^verbatim>\<open>d[k]\<close> of a dictionary raises \<^verbatim>\<open>KeyError\<close> on a missing key.\<close>

definition getitem :: "row \<Rightarrow> string \<Rightarrow> error + val" where
  "getitem d k = (case map_of d k of None \<Rightarrow> Inl (KeyError k) | Some v \<Rightarrow> Inr v)"

subsection \<open>Decimal text and ISO 8601 text\<close>

definition digit :: "nat \<Rightarrow> char" where
  "digit n = (''0123456789'' ! (n mod 10))"

function str_nat :: "nat \<Rightarrow> string" where
  "str_nat n = (if n < 10 then [digit n] else str_nat (n div 10) @ [digit n])"
  by pat_completeness auto
termination
  by (relation "measure id") auto

definition str_int :: "int \<Rightarrow> string" where
  "str_int i = (if i < 0 then CHR ''-'' # str_nat (nat (- i)) else str_nat (nat i))"

definition pad :: "nat \<Rightarrow> nat \<Rightarrow> string" where
  "pad w n = replicate (w - length (str_nat n)) CHR ''0'' @ str_nat n"

text \<open>
  \<^verbatim>\<open>datetime.datetime\<close>: the calendar fields and \<^verbatim>\<open>tzinfo\<close>, which is \<^verbatim>\<open>None\<close> for a naive
  value and otherwise a time zone, given by its offset from UTC in minutes.
\<close>

record datetime =
  year :: nat
  month :: nat
  day :: nat
  hour :: nat
  minute :: nat
  second :: nat
  microsecond :: nat
  tzinfo :: "int option"

definition utc_offset :: "int \<Rightarrow> string" where
  "utc_offset m =
     (if m < 0 then ''-'' else ''+'') @ pad 2 (nat \<bar>m\<bar> div 60) @ '':'' @ pad 2 (nat \<bar>m\<bar> mod 60)"

definition isoformat :: "datetime \<Rightarrow> string" where
  "isoformat d =
     pad 4 (year d) @ ''-'' @ pad 2 (month d) @ ''-'' @ pad 2 (day d) @ ''T'' @
     pad 2 (hour d) @ '':'' @ pad 2 (minute d) @ '':'' @ pad 2 (second d) @
     (if microsecond d = 0 then [] else ''.'' @ pad 6 (microsecond d)) @
     (case tzinfo d of None \<Rightarrow> [] | Some m \<Rightarrow> utc_offset m)"

text \<open>
  \<^verbatim>\<open>datetime.time\<close> as \<^verbatim>\<open>strptime(s, '%Y-%m-%dT%H:%M').time()\<close> yields it: hour and
  minute, no seconds, no time zone.
\<close>

record pytime =
  t_hour :: nat
  t_minute :: nat

definition time_isoformat :: "pytime \<Rightarrow> string" where
  "time_isoformat t = pad 2 (t_hour t) @ '':'' @ pad 2 (t_minute t) @ '':00''"

section \<open>The data store\<close>

text \<open>
  Modelled from the spec: the tables of the hosted store and their columns (the schema is
  not in the source; the keys of the dictionaries the code inserts name the same columns).
  The elections table has columns \<^verbatim>\<open>id\<close>, \<^verbatim>\<open>num_candidates\<close>, \<^verbatim>\<open>start_time\<close>,
  \<^verbatim>\<open>end_time\<close>, \<^verbatim>\<open>ongoing\<close>, \<^verbatim>\<open>results_visibility\<close>, \<^verbatim>\<open>encrypted_sum\<close>,
  \<^verbatim>\<open>combined_randomness\<close>, \<^verbatim>\<open>decrypted_tally\<close> and the server timestamp
  \<^verbatim>\<open>created_at\<close>; \<^verbatim>\<open>id\<close> is unique. The candidates table has \<^verbatim>\<open>election_id\<close>, \<^verbatim>\<open>name\<close>,
  \<^verbatim>\<open>cand_id\<close>, \<^verbatim>\<open>symbol\<close>; the votes table has \<^verbatim>\<open>cnic\<close>, \<^verbatim>\<open>ballot_id\<close>,
  \<^verbatim>\<open>election_id\<close>, \<^verbatim>\<open>encrypted_vote\<close>, \<^verbatim>\<open>vote_hash\<close>, \<^verbatim>\<open>randomness\<close>, \<^verbatim>\<open>time\<close>.
  The store keeps typed rows; the fields are named after the columns (with a prefix where
  two tables share a column name, and \<open>vote_time\<close> for \<^verbatim>\<open>time\<close>).

  The store matches column names exactly. The voter column of the votes table is
  \<^verbatim>\<open>cnic\<close>, as the spec has it and as the source names it where it inserts a vote; the
  key column of the elections table is \<^verbatim>\<open>id\<close>, as the source names it wherever it
  inserts into, updates or orders that table.
\<close>

record election =
  e_id :: int
  num_candidates :: int
  start_time :: string
  end_time :: string
  ongoing :: bool
  results_visibility :: bool
  encrypted_sum :: "string option"
  combined_randomness :: "string option"
  decrypted_tally :: "string option"
  created_at :: int

record candidate =
  c_election_id :: int
  name :: string
  cand_id :: "string option"
  symbol :: string

record vote =
  cnic :: string
  ballot_id :: int
  v_election_id :: int
  encrypted_vote :: string
  vote_hash :: string
  randomness :: string
  vote_time :: string

record db =
  elections :: "election list"
  candidates :: "candidate list"
  votes :: "vote list"

definition empty_db :: db where
  "empty_db = \<lparr>elections = [], candidates = [], votes = []\<rparr>"

subsection \<open>Rows as JSON objects\<close>

definition opt_val :: "string option \<Rightarrow> val" where
  "opt_val s = (case s of None \<Rightarrow> VNull | Some x \<Rightarrow> VStr x)"

definition election_columns :: "string list" where
  "election_columns =
     [''id'', ''num_candidates'', ''start_time'', ''end_time'', ''ongoing'',
      ''results_visibility'', ''encrypted_sum'', ''combined_randomness'',
      ''decrypted_tally'', ''created_at'']"

definition election_row :: "election \<Rightarrow> row" where
  "election_row e =
     [(''id'', VInt (e_id e)),
      (''num_candidates'', VInt (num_candidates e)),
      (''start_time'', VStr (start_time e)),
      (''end_time'', VStr (end_time e)),
      (''ongoing'', VBool (ongoing e)),
      (''results_visibility'', VBool (results_visibility e)),
      (''encrypted_sum'', opt_val (encrypted_sum e)),
      (''combined_randomness'', opt_val (combined_randomness e)),
      (''decrypted_tally'', opt_val (decrypted_tally e)),
      (''created_at'', VInt (created_at e))]"

definition candidate_columns :: "string list" where
  "candidate_columns = [''election_id'', ''name'', ''cand_id'', ''symbol'']"

definition candidate_row :: "candidate \<Rightarrow> row" where
  "candidate_row c =
     [(''election_id'', VInt (c_election_id c)),
      (''name'', VStr (name c)),
      (''cand_id'', opt_val (cand_id c)),
      (''symbol'', VStr (symbol c))]"

definition vote_columns :: "string list" where
  "vote_columns =
     [''cnic'', ''ballot_id'', ''election_id'', ''encrypted_vote'', ''vote_hash'',
      ''randomness'', ''time'']"

definition vote_row :: "vote \<Rightarrow> row" where
  "vote_row v =
     [(''cnic'', VStr (cnic v)),
      (''ballot_id'', VInt (ballot_id v)),
      (''election_id'', VInt (v_election_id v)),
      (''encrypted_vote'', VStr (encrypted_vote v)),
      (''vote_hash'', VStr (vote_hash v)),
      (''randomness'', VStr (randomness v)),
      (''time'', VStr (vote_time v))]"

text \<open>
  Reading a JSON object back into a typed row, as the store does with the body of an
  insert or with a patched row: every key must be a column of the table, every column
  must hold a value of its type, and only the three tally columns may be \<^verbatim>\<open>null\<close> or
  missing. \<^verbatim>\<open>created_at\<close> defaults to the server's clock.
\<close>

definition as_int :: "val option \<Rightarrow> int option" where
  "as_int v = (case v of Some (VInt i) \<Rightarrow> Some i | _ \<Rightarrow> None)"

definition as_str :: "val option \<Rightarrow> string option" where
  "as_str v = (case v of Some (VStr s) \<Rightarrow> Some s | _ \<Rightarrow> None)"

definition as_bool :: "val option \<Rightarrow> bool option" where
  "as_bool v = (case v of Some (VBool b) \<Rightarrow> Some b | _ \<Rightarrow> None)"

definition as_opt_str :: "val option \<Rightarrow> string option option" where
  "as_opt_str v =
     (case v of None \<Rightarrow> Some None | Some VNull \<Rightarrow> Some None
      | Some (VStr s) \<Rightarrow> Some (Some s) | _ \<Rightarrow> None)"

definition as_int_default :: "int \<Rightarrow> val option \<Rightarrow> int option" where
  "as_int_default d v =
     (case v of None \<Rightarrow> Some d | Some VNull \<Rightarrow> Some d | Some (VInt i) \<Rightarrow> Some i | _ \<Rightarrow> None)"

definition known_keys :: "string list \<Rightarrow> row \<Rightarrow> bool" where
  "known_keys cols r = list_all (\<lambda>kv. fst kv \<in> set cols) r"

definition election_of_row :: "int \<Rightarrow> row \<Rightarrow> election option" where
  "election_of_row now r =
     (if \<not> known_keys election_columns r then None else
      Option.bind (as_int (map_of r ''id'')) (\<lambda>i.
      Option.bind (as_int (map_of r ''num_candidates'')) (\<lambda>n.
      Option.bind (as_str (map_of r ''start_time'')) (\<lambda>st.
      Option.bind (as_str (map_of r ''end_time'')) (\<lambda>et.
      Option.bind (as_bool (map_of r ''ongoing'')) (\<lambda>og.
      Option.bind (as_bool (map_of r ''results_visibility'')) (\<lambda>rv.
      Option.bind (as_opt_str (map_of r ''encrypted_sum'')) (\<lambda>es.
      Option.bind (as_opt_str (map_of r ''combined_randomness'')) (\<lambda>cr.
      Option.bind (as_opt_str (map_of r ''decrypted_tally'')) (\<lambda>dt.
      Option.bind (as_int_default now (map_of r ''created_at'')) (\<lambda>ca.
        Some \<lparr>e_id = i, num_candidates = n, start_time = st, end_time = et,
              ongoing = og, results_visibility = rv, encrypted_sum = es,
              combined_randomness = cr, decrypted_tally = dt,
              created_at = ca\<rparr>)))))))))))"

definition candidate_of_row :: "row \<Rightarrow> candidate option" where
  "candidate_of_row r =
     (if \<not> known_keys candidate_columns r then None else
      Option.bind (as_int (map_of r ''election_id'')) (\<lambda>e.
      Option.bind (as_str (map_of r ''name'')) (\<lambda>n.
      Option.bind (as_opt_str (map_of r ''cand_id'')) (\<lambda>c.
      Option.bind (as_str (map_of r ''symbol'')) (\<lambda>s.
        Some \<lparr>c_election_id = e, name = n, cand_id = c, symbol = s\<rparr>)))))"

definition vote_of_row :: "row \<Rightarrow> vote option" where
  "vote_of_row r =
     (if \<not> known_keys vote_columns r then None else
      Option.bind (as_str (map_of r ''cnic'')) (\<lambda>c.
      Option.bind (as_int (map_of r ''ballot_id'')) (\<lambda>b.
      Option.bind (as_int (map_of r ''election_id'')) (\<lambda>e.
      Option.bind (as_str (map_of r ''encrypted_vote'')) (\<lambda>ev.
      Option.bind (as_str (map_of r ''vote_hash'')) (\<lambda>h.
      Option.bind (as_str (map_of r ''randomness'')) (\<lambda>rn.
      Option.bind (as_str (map_of r ''time'')) (\<lambda>t.
        Some \<lparr>cnic = c, ballot_id = b, v_election_id = e, encrypted_vote = ev,
              vote_hash = h, randomness = rn, vote_time = t\<rparr>))))))))"

subsection \<open>The query builder\<close>

text \<open>
  What \<^verbatim>\<open>execute()\<close> hands back: the rows and the HTTP status of the request.
\<close>

record response =
  data :: "row list"
  status_code :: nat

text \<open>
  A select, as the chain \<^verbatim>\<open>table(t).select(c).eq(k, v).order(k, desc=True).limit(n)\<close>
  builds it: the table, the selected column (\<^verbatim>\<open>*\<close> for all), at most one equality
  filter, at most one descending order, at most one limit.
\<close>

record query =
  q_table :: string
  q_select :: string
  q_eq :: "(string \<times> val) option"
  q_order_desc :: "string option"
  q_limit :: "nat option"

text \<open>
  The order of SQL values of one column; \<^verbatim>\<open>null\<close> sorts as the greatest value (first
  in a descending order).
\<close>

fun val_key :: "val \<Rightarrow> nat \<times> int \<times> string" where
  "val_key (VBool b) = (0, (if b then 1 else 0), [])"
| "val_key (VInt i) = (1, i, [])"
| "val_key (VStr s) = (2, 0, s)"
| "val_key VNull = (3, 0, [])"

definition column :: "string \<Rightarrow> row \<Rightarrow> val" where
  "column k r = (case map_of r k of None \<Rightarrow> VNull | Some v \<Rightarrow> v)"

definition apply_eq :: "(string \<times> val) option \<Rightarrow> row list \<Rightarrow> row list" where
  "apply_eq f rs =
     (case f of None \<Rightarrow> rs
      | Some (k, v) \<Rightarrow> filter (\<lambda>r. v \<noteq> VNull \<and> map_of r k = Some v) rs)"

definition apply_order :: "string option \<Rightarrow> row list \<Rightarrow> row list" where
  "apply_order f rs =
     (case f of None \<Rightarrow> rs | Some k \<Rightarrow> rev (sort_key (\<lambda>r. val_key (column k r)) rs))"

definition apply_limit :: "nat option \<Rightarrow> row list \<Rightarrow> row list" where
  "apply_limit f rs = (case f of None \<Rightarrow> rs | Some n \<Rightarrow> take n rs)"

definition apply_select :: "string \<Rightarrow> row list \<Rightarrow> row list" where
  "apply_select c rs = (if c = ''*'' then rs else map (filter (\<lambda>kv. fst kv = c)) rs)"

definition table_rows :: "db \<Rightarrow> string \<Rightarrow> (string list \<times> row list) option" where
  "table_rows d t =
     (if t = ''elections'' then Some (election_columns, map election_row (elections d))
      else if t = ''candidates'' then Some (candidate_columns, map candidate_row (candidates d))
      else if t = ''votes'' then Some (vote_columns, map vote_row (votes d))
      else None)"

text \<open>
  A select is rejected when it names a table or a column the store does not have;
  otherwise it filters, orders, limits and projects the rows of the table.
\<close>

definition unknown_column :: "string list \<Rightarrow> query \<Rightarrow> string option" where
  "unknown_column cols q =
     (if q_select q \<noteq> ''*'' \<and> q_select q \<notin> set cols then Some (q_select q)
      else case q_eq q of
        Some (k, v) \<Rightarrow> if k \<notin> set cols then Some k
                        else (case q_order_desc q of
                                Some k' \<Rightarrow> if k' \<notin> set cols then Some k' else None
                              | None \<Rightarrow> None)
      | None \<Rightarrow> (case q_order_desc q of
                    Some k' \<Rightarrow> if k' \<notin> set cols then Some k' else None
                  | None \<Rightarrow> None))"

definition execute_select :: "db \<Rightarrow> query \<Rightarrow> error + response" where
  "execute_select d q =
     (case table_rows d (q_table q) of
        None \<Rightarrow> Inl (APIError (q_table q))
      | Some (cols, rs) \<Rightarrow>
          (case unknown_column cols q of
             Some k \<Rightarrow> Inl (APIError k)
           | None \<Rightarrow>
               Inr \<lparr>data = apply_select (q_select q)
                             (apply_limit (q_limit q)
                               (apply_order (q_order_desc q) (apply_eq (q_eq q) rs))),
                    status_code = 200\<rparr>))"

text \<open>
  Inserts append the rows to the table and answer with the rows as stored and status
  201; a body that does not fit the table is rejected and nothing is stored. An insert
  into the elections table is also rejected when it would repeat an \<^verbatim>\<open>id\<close>.
\<close>

definition insert_votes :: "db \<Rightarrow> row list \<Rightarrow> db \<times> (error + response)" where
  "insert_votes d rs =
     (case those (map vote_of_row rs) of
        None \<Rightarrow> (d, Inl (APIError ''votes''))
      | Some vs \<Rightarrow>
          (d\<lparr>votes := votes d @ vs\<rparr>, Inr \<lparr>data = map vote_row vs, status_code = 201\<rparr>))"

definition insert_candidates :: "db \<Rightarrow> row list \<Rightarrow> db \<times> (error + response)" where
  "insert_candidates d rs =
     (case those (map candidate_of_row rs) of
        None \<Rightarrow> (d, Inl (APIError ''candidates''))
      | Some cs \<Rightarrow>
          (d\<lparr>candidates := candidates d @ cs\<rparr>,
           Inr \<lparr>data = map candidate_row cs, status_code = 201\<rparr>))"

definition insert_elections :: "db \<Rightarrow> int \<Rightarrow> row list \<Rightarrow> db \<times> (error + response)" where
  "insert_elections d now rs =
     (case those (map (election_of_row now) rs) of
        None \<Rightarrow> (d, Inl (APIError ''elections''))
      | Some es \<Rightarrow>
          if distinct (map e_id (elections d @ es))
          then (d\<lparr>elections := elections d @ es\<rparr>,
                Inr \<lparr>data = map election_row es, status_code = 201\<rparr>)
          else (d, Inl (APIError ''duplicate key'')))"

text \<open>
  An update \<^verbatim>\<open>table("elections").update(patch).eq(k, v)\<close> overwrites the patched columns
  in every row that passes the filter and answers with the rows it changed.
\<close>

definition patch_row :: "row \<Rightarrow> row \<Rightarrow> row" where
  "patch_row p r = map (\<lambda>kv. (fst kv, case map_of p (fst kv) of None \<Rightarrow> snd kv | Some v \<Rightarrow> v)) r"

definition matches :: "string \<Rightarrow> val \<Rightarrow> row \<Rightarrow> bool" where
  "matches k v r = (v \<noteq> VNull \<and> map_of r k = Some v)"

definition update_elections :: "db \<Rightarrow> row \<Rightarrow> string \<Rightarrow> val \<Rightarrow> db \<times> (error + response)" where
  "update_elections d p k v =
     (if k \<notin> set election_columns then (d, Inl (APIError k))
      else if \<not> known_keys election_columns p then (d, Inl (APIError ''elections''))
      else
        (case those (map (\<lambda>e. if matches k v (election_row e)
                               then election_of_row (created_at e) (patch_row p (election_row e))
                               else Some e) (elections d)) of
           None \<Rightarrow> (d, Inl (APIError ''elections''))
         | Some es \<Rightarrow>
             (d\<lparr>elections := es\<rparr>,
              Inr \<lparr>data = map (\<lambda>e. patch_row p (election_row e))
                             (filter (\<lambda>e. matches k v (election_row e)) (elections d)),
                   status_code = 200\<rparr>)))"

section \<open>The data access class\<close>

text \<open>
  \<^verbatim>\<open>store_vote_data\<close> refuses a timestamp without time zone before it touches the store,
  and otherwise inserts one row into the votes table.
\<close>

definition store_vote_data ::
  "db \<Rightarrow> string \<Rightarrow> int \<Rightarrow> int \<Rightarrow> string \<Rightarrow> string \<Rightarrow> string \<Rightarrow> datetime \<Rightarrow> db \<times> (error + response)"
where
  "store_vote_data d cnic' ballot_id' election_id encryption hash_value random_factor timestamp =
     (if tzinfo timestamp = None
      then (d, Inl (ValueError ''vote_time must include timezone information.''))
      else insert_votes d
             [[(''cnic'', VStr cnic'),
               (''ballot_id'', VInt ballot_id'),
               (''election_id'', VInt election_id),
               (''encrypted_vote'', VStr encryption),
               (''vote_hash'', VStr hash_value),
               (''randomness'', VStr random_factor),
               (''time'', VStr (isoformat timestamp))]])"

text \<open>
  \<^verbatim>\<open>retrieve_vote_data\<close> selects from the votes table the rows whose column \<^verbatim>\<open>CNIC\<close> equals
  the argument and returns the first, or \<^verbatim>\<open>None\<close>.
\<close>

definition retrieve_vote_data :: "db \<Rightarrow> string \<Rightarrow> error + row option" where
  "retrieve_vote_data d cnic' =
     (case execute_select d
             \<lparr>q_table = ''votes'', q_select = ''*'', q_eq = Some (''CNIC'', VStr cnic'),
              q_order_desc = None, q_limit = None\<rparr> of
        Inl e \<Rightarrow> Inl e
      | Inr response \<Rightarrow> Inr (case data response of [] \<Rightarrow> None | r # _ \<Rightarrow> Some r))"

text \<open>
  \<^verbatim>\<open>store_election_data\<close> inserts one row into the elections table, with the status and
  visibility the caller passes. Its only caller passes \<^verbatim>\<open>datetime.time\<close> values for the
  two times. \<open>now\<close> is the clock of the store at the insert.
\<close>

definition store_election_data ::
  "db \<Rightarrow> int \<Rightarrow> int \<Rightarrow> int \<Rightarrow> pytime \<Rightarrow> pytime \<Rightarrow> bool \<Rightarrow> bool \<Rightarrow>
   string option \<Rightarrow> string option \<Rightarrow> string option \<Rightarrow> db \<times> (error + response)"
where
  "store_election_data d now election_id num_candidates' start_time' end_time' status
       results_visibility' encrypted_sum' encrypted_randomness decrypted_tally' =
     insert_elections d now
       [[(''id'', VInt election_id),
         (''num_candidates'', VInt num_candidates'),
         (''start_time'', VStr (time_isoformat start_time')),
         (''end_time'', VStr (time_isoformat end_time')),
         (''ongoing'', VBool status),
         (''results_visibility'', VBool results_visibility'),
         (''encrypted_sum'', opt_val encrypted_sum'),
         (''combined_randomness'', opt_val encrypted_randomness),
         (''decrypted_tally'', opt_val decrypted_tally')]]"

text \<open>
  \<^verbatim>\<open>store_candidate_data\<close> builds one row per candidate dictionary (a missing key raises
  \<^verbatim>\<open>KeyError\<close>) and inserts the batch into the candidates table.
\<close>

definition candidate_data :: "int \<Rightarrow> row \<Rightarrow> error + row" where
  "candidate_data election_id candidate =
     (case getitem candidate ''name'' of Inl e \<Rightarrow> Inl e | Inr n \<Rightarrow>
     (case getitem candidate ''id'' of Inl e \<Rightarrow> Inl e | Inr c \<Rightarrow>
     (case getitem candidate ''symbol'' of Inl e \<Rightarrow> Inl e | Inr s \<Rightarrow>
        Inr [(''election_id'', VInt election_id), (''name'', n), (''cand_id'', c),
             (''symbol'', s)])))"

fun collect :: "(error + 'a) list \<Rightarrow> error + 'a list" where
  "collect [] = Inr []"
| "collect (x # xs) =
     (case x of Inl e \<Rightarrow> Inl e
      | Inr y \<Rightarrow> (case collect xs of Inl e \<Rightarrow> Inl e | Inr ys \<Rightarrow> Inr (y # ys)))"

definition store_candidate_data :: "db \<Rightarrow> int \<Rightarrow> row list \<Rightarrow> db \<times> (error + response)" where
  "store_candidate_data d election_id candidates' =
     (case collect (map (candidate_data election_id) candidates') of
        Inl e \<Rightarrow> (d, Inl e)
      | Inr rows \<Rightarrow> insert_candidates d rows)"

text \<open>\<^verbatim>\<open>get_votes_by_election\<close>: the vote rows whose \<^verbatim>\<open>election_id\<close> is the argument.\<close>

definition get_votes_by_election :: "db \<Rightarrow> val \<Rightarrow> error + row list" where
  "get_votes_by_election d election_id =
     (case execute_select d
             \<lparr>q_table = ''votes'', q_select = ''*'', q_eq = Some (''election_id'', election_id),
              q_order_desc = None, q_limit = None\<rparr> of
        Inl e \<Rightarrow> Inl e
      | Inr response \<Rightarrow> Inr (data response))"

text \<open>
  \<^verbatim>\<open>retrieve_election_data\<close> selects from the elections table the rows whose column
  \<^verbatim>\<open>election_id\<close> equals the argument and returns the first, or \<^verbatim>\<open>None\<close>.
\<close>

definition retrieve_election_data :: "db \<Rightarrow> int \<Rightarrow> error + row option" where
  "retrieve_election_data d election_id =
     (case execute_select d
             \<lparr>q_table = ''elections'', q_select = ''*'',
              q_eq = Some (''election_id'', VInt election_id),
              q_order_desc = None, q_limit = None\<rparr> of
        Inl e \<Rightarrow> Inl e
      | Inr response \<Rightarrow> Inr (case data response of [] \<Rightarrow> None | r # _ \<Rightarrow> Some r))"

text \<open>
  \<^verbatim>\<open>update_result_visibility\<close> answers with a dictionary whose \<^verbatim>\<open>status\<close> is
  \<^verbatim>\<open>error\<close>, \<^verbatim>\<open>success\<close> or \<^verbatim>\<open>skipped\<close>. Its second parameter is not used.
\<close>

definition status_message :: "string \<Rightarrow> string \<Rightarrow> row" where
  "status_message s m = [(''status'', VStr s), (''message'', VStr m)]"

definition update_result_visibility :: "db \<Rightarrow> int \<Rightarrow> bool \<Rightarrow> db \<times> (error + row)" where
  "update_result_visibility d election_id status =
     (case retrieve_election_data d election_id of
        Inl e \<Rightarrow> (d, Inl e)
      | Inr None \<Rightarrow>
          (d, Inr (status_message ''error''
                     (''Election ID '' @ str_int election_id @ '' not found'')))
      | Inr (Some election_data) \<Rightarrow>
          if election_data = [] then
            (d, Inr (status_message ''error''
                       (''Election ID '' @ str_int election_id @ '' not found'')))
          else
          (case getitem election_data ''ongoing'' of
             Inl e \<Rightarrow> (d, Inl e)
           | Inr og \<Rightarrow>
               if \<not> truthy og then
                 (case update_elections d [(''results_visibility'', VBool True)]
                         ''id'' (VInt election_id) of
                    (d', Inl e) \<Rightarrow> (d', Inl e)
                  | (d', Inr response) \<Rightarrow>
                      if status_code response = 200 then
                        (d', Inr (status_message ''success''
                           (''Results visibility updated for election ID '' @ str_int election_id)))
                      else
                        (d', Inr (status_message ''error''
                           (''Failed to update results visibility for election ID ''
                            @ str_int election_id))))
               else
                 (d, Inr (status_message ''skipped''
                    (''Election ID '' @ str_int election_id
                     @ '' is already ongoing; no update made'')))))"

text \<open>
  \<^verbatim>\<open>retrieve_last_election\<close>: the first row of the elections table in descending order of
  \<^verbatim>\<open>created_at\<close>, or a status dictionary when the table is empty.
\<close>

definition retrieve_last_election :: "db \<Rightarrow> error + row" where
  "retrieve_last_election d =
     (case execute_select d
             \<lparr>q_table = ''elections'', q_select = ''*'', q_eq = None,
              q_order_desc = Some ''created_at'', q_limit = Some 1\<rparr> of
        Inl e \<Rightarrow> Inl e
      | Inr response \<Rightarrow>
          (case data response of
             [] \<Rightarrow> Inr (status_message ''error'' ''No elections found'')
           | r # _ \<Rightarrow> Inr r))"

text \<open>
  What a function of the application hands to its caller or to a template: \<^verbatim>\<open>None\<close>, a
  string, a dictionary, a list of rows, or the response object of the query builder.
\<close>

datatype pyval = PNone | PStr string | PDict row | PList "row list" | PResponse response

text \<open>
  \<^verbatim>\<open>end_election\<close> takes the first election in descending order of \<^verbatim>\<open>id\<close> and writes
  \<^verbatim>\<open>ongoing = False\<close> into the rows with that \<^verbatim>\<open>id\<close>; on an empty table it returns a
  status dictionary.
\<close>

definition end_election :: "db \<Rightarrow> db \<times> (error + pyval)" where
  "end_election d =
     (case execute_select d
             \<lparr>q_table = ''elections'', q_select = ''*'', q_eq = None,
              q_order_desc = Some ''id'', q_limit = Some 1\<rparr> of
        Inl e \<Rightarrow> (d, Inl e)
      | Inr response \<Rightarrow>
          (case data response of
             [] \<Rightarrow> (d, Inr (PDict (status_message ''error'' ''No elections found'')))
           | last_election # _ \<Rightarrow>
               (case getitem last_election ''id'' of
                  Inl e \<Rightarrow> (d, Inl e)
                | Inr election_id \<Rightarrow>
                    (case update_elections d [(''ongoing'', VBool False)] ''id'' election_id of
                       (d', Inl e) \<Rightarrow> (d', Inl e)
                     | (d', Inr update_response) \<Rightarrow> (d', Inr (PResponse update_response))))))"

text \<open>
  \<^verbatim>\<open>get_visible_election\<close>: the first election whose \<^verbatim>\<open>results_visibility\<close> is true, or
  \<^verbatim>\<open>None\<close>.
\<close>

definition get_visible_election :: "db \<Rightarrow> error + row option" where
  "get_visible_election d =
     (case execute_select d
             \<lparr>q_table = ''elections'', q_select = ''*'',
              q_eq = Some (''results_visibility'', VBool True),
              q_order_desc = None, q_limit = Some 1\<rparr> of
        Inl e \<Rightarrow> Inl e
      | Inr response \<Rightarrow> Inr (case data response of [] \<Rightarrow> None | r # _ \<Rightarrow> Some r))"

section \<open>The request handlers\<close>

text \<open>
  A handler answers with a rendered template and its arguments, a body with a status, or
  a redirect; an exception that leaves the handler is an \<open>error\<close>. A handler that writes to
  the store returns the store as it is when the handler ends, also when it ends in an
  exception.
\<close>

datatype reply =
    Render string "(string \<times> pyval) list"
  | Body string nat
  | Redirect string

text \<open>
  Attribute access \<^verbatim>\<open>x.data\<close>: defined on the response object of the query builder, an
  \<^verbatim>\<open>AttributeError\<close> on every other value.
\<close>

fun getattr_data :: "pyval \<Rightarrow> error + row list" where
  "getattr_data (PResponse r) = Inr (data r)"
| "getattr_data _ = Inl (AttributeError ''data'')"

text \<open>
  \<^verbatim>\<open>voter_login\<close>: on a POST it reads the \<^verbatim>\<open>cnic\<close> field, asks for the last election and
  reads \<^verbatim>\<open>.data[0]\<close> of what \<^verbatim>\<open>retrieve_last_election\<close> returned, which is a dictionary.
  \<^verbatim>\<open>flash\<close> is not imported by the module.
\<close>

definition voter_login :: "db \<Rightarrow> string \<Rightarrow> (string \<times> string) list \<Rightarrow> error + reply" where
  "voter_login d method form =
     (if method = ''POST'' then
        (case map_of form ''cnic'' of
           None \<Rightarrow> Inl (BadRequest ''cnic'')
         | Some cnic' \<Rightarrow>
        (case retrieve_last_election d of
           Inl e \<Rightarrow> Inl e
         | Inr response \<Rightarrow>
        (case getattr_data (PDict response) of
           Inl e \<Rightarrow> Inl e
         | Inr rows \<Rightarrow>
        (case rows of
           [] \<Rightarrow> Inl IndexError
         | last_election # _ \<Rightarrow>
        (case getitem last_election ''ongoing'' of
           Inl e \<Rightarrow> Inl e
         | Inr og \<Rightarrow>
             if eq_True og then
               (case retrieve_vote_data d cnic' of
                  Inl e \<Rightarrow> Inl e
                | Inr None \<Rightarrow> Inr (Render ''cast_vote.html'' [(''cnic'', PStr cnic')])
                | Inr (Some vote_data) \<Rightarrow>
                    if vote_data \<noteq> []
                    then Inr (Render ''receipt.html'' [(''vote_data'', PDict vote_data)])
                    else Inr (Render ''cast_vote.html'' [(''cnic'', PStr cnic')]))
             else
               (case getitem last_election ''results_visibility'' of
                  Inl e \<Rightarrow> Inl e
                | Inr rv \<Rightarrow>
                    if eq_True rv then Inr (Render ''search_encryptions.html'' [])
                    else Inl (NameError ''flash'')))))))
      else Inr (Render ''login.html'' []))"

text \<open>
  \<^verbatim>\<open>election_setup\<close>: refuses with status 403 when some election row has
  \<^verbatim>\<open>ongoing == True\<close>, and otherwise shows the set-up form. It writes nothing.
\<close>

fun any_ongoing :: "row list \<Rightarrow> error + bool" where
  "any_ongoing [] = Inr False"
| "any_ongoing (i # rest) =
     (case getitem i ''ongoing'' of
        Inl e \<Rightarrow> Inl e
      | Inr v \<Rightarrow> if eq_True v then Inr True else any_ongoing rest)"

definition election_setup :: "db \<Rightarrow> error + reply" where
  "election_setup d =
     (case execute_select d
             \<lparr>q_table = ''elections'', q_select = ''ongoing'', q_eq = None,
              q_order_desc = None, q_limit = None\<rparr> of
        Inl e \<Rightarrow> Inl e
      | Inr response \<Rightarrow>
          (case any_ongoing (data response) of
             Inl e \<Rightarrow> Inl e
           | Inr True \<Rightarrow> Inr (Body ''An election is already ongoing!'' 403)
           | Inr False \<Rightarrow> Inr (Render ''election_setup.html'' [])))"

text \<open>
  The form of \<^verbatim>\<open>start_election\<close>. The four conversions at the head of the handler
  (\<^verbatim>\<open>int\<close> twice, \<^verbatim>\<open>strptime(...).time()\<close> twice) are given by their outcome, \<open>None\<close> when
  the field is missing or does not convert; the candidate fields are read from the raw
  form with \<^verbatim>\<open>request.form.get\<close>.
\<close>

record start_form =
  f_election_id :: "int option"
  f_num_candidates :: "int option"
  f_start_time :: "pytime option"
  f_end_time :: "pytime option"
  f_fields :: "(string \<times> string) list"

definition str_truthy :: "string option \<Rightarrow> bool" where
  "str_truthy s = (case s of None \<Rightarrow> False | Some x \<Rightarrow> x \<noteq> [])"

definition candidate_entry :: "(string \<times> string) list \<Rightarrow> int \<Rightarrow> row option" where
  "candidate_entry form i =
     (let candidate_name = map_of form (''candidate_name_'' @ str_int i);
          candidate_id = map_of form (''candidate_id_'' @ str_int i);
          candidate_symbol = map_of form (''candidate_symbol_'' @ str_int i)
      in if str_truthy candidate_name \<and> str_truthy candidate_symbol
         then Some [(''name'', opt_val candidate_name), (''id'', opt_val candidate_id),
                    (''symbol'', opt_val candidate_symbol)]
         else None)"

text \<open>
  The dashboard, as \<^verbatim>\<open>start_election\<close> renders it when both inserts returned rows: all
  elections, and the last of them (\<^verbatim>\<open>elections[-1]\<close>, or \<^verbatim>\<open>None\<close> on an empty list).
\<close>

definition admin_dashboard :: "db \<Rightarrow> error + reply" where
  "admin_dashboard d =
     (case execute_select d
             \<lparr>q_table = ''elections'', q_select = ''*'', q_eq = None,
              q_order_desc = None, q_limit = None\<rparr> of
        Inl e \<Rightarrow> Inl e
      | Inr response \<Rightarrow>
          Inr (Render ''admin_dashboard.html''
                 [(''elections'', PList (data response)),
                  (''last_election'',
                     if data response = [] then PNone else PDict (last (data response)))]))"

text \<open>
  \<^verbatim>\<open>start_election\<close> converts the form, collects the candidate entries whose name and
  symbol are both present and not empty, inserts the election with \<^verbatim>\<open>ongoing = True\<close>
  and \<^verbatim>\<open>results_visibility = False\<close>, then inserts the candidates. It does not look at
  the elections already stored. When one of the two inserts returned no row, the handler
  reads the unassigned local \<^verbatim>\<open>response\<close>.
\<close>

definition start_election :: "db \<Rightarrow> int \<Rightarrow> start_form \<Rightarrow> db \<times> (error + reply)" where
  "start_election d now form =
     (case f_election_id form of None \<Rightarrow> (d, Inl (BadRequest ''election_id''))
      | Some election_id \<Rightarrow>
     (case f_num_candidates form of None \<Rightarrow> (d, Inl (BadRequest ''num_candidates''))
      | Some num_candidates' \<Rightarrow>
     (case f_start_time form of None \<Rightarrow> (d, Inl (BadRequest ''start_time''))
      | Some start_time' \<Rightarrow>
     (case f_end_time form of None \<Rightarrow> (d, Inl (BadRequest ''end_time''))
      | Some end_time' \<Rightarrow>
        (let candidates' = List.map_filter (candidate_entry (f_fields form)) [1..num_candidates']
         in (case store_election_data d now election_id num_candidates' start_time' end_time'
                   True False None None None of
              (d1, Inl e) \<Rightarrow> (d1, Inl e)
            | (d1, Inr response1) \<Rightarrow>
                (case store_candidate_data d1 election_id candidates' of
                   (d2, Inl e) \<Rightarrow> (d2, Inl e)
                 | (d2, Inr response2) \<Rightarrow>
                     (if data response1 \<noteq> [] \<and> data response2 \<noteq> []
                      then (d2, admin_dashboard d2)
                      else (d2, Inl (UnboundLocalError ''response''))))))))))"

text \<open>
  What \<^verbatim>\<open>start_election\<close> makes of its form: the election row it inserts, the entries
  \<open>i\<close> of the form it keeps (name and symbol both present and not empty), and the candidate
  row a kept entry leads to.
\<close>

definition new_election :: "int \<Rightarrow> int \<Rightarrow> int \<Rightarrow> pytime \<Rightarrow> pytime \<Rightarrow> election" where
  "new_election now i n st et =
     \<lparr>e_id = i, num_candidates = n, start_time = time_isoformat st,
      end_time = time_isoformat et, ongoing = True, results_visibility = False,
      encrypted_sum = None, combined_randomness = None, decrypted_tally = None,
      created_at = now\<rparr>"

definition entry_kept :: "(string \<times> string) list \<Rightarrow> int \<Rightarrow> bool" where
  "entry_kept form i \<longleftrightarrow>
     str_truthy (map_of form (''candidate_name_'' @ str_int i)) \<and>
     str_truthy (map_of form (''candidate_symbol_'' @ str_int i))"

definition entry_candidate :: "int \<Rightarrow> (string \<times> string) list \<Rightarrow> int \<Rightarrow> candidate" where
  "entry_candidate election_id form i =
     \<lparr>c_election_id = election_id,
      name = the (map_of form (''candidate_name_'' @ str_int i)),
      cand_id = map_of form (''candidate_id_'' @ str_int i),
      symbol = the (map_of form (''candidate_symbol_'' @ str_int i))\<rparr>"

text \<open>
  The handler of \<^verbatim>\<open>/admin/end_election\<close> calls \<^verbatim>\<open>end_election\<close> of the data access class
  and shows the dashboard whatever it returned.
\<close>

definition end_election_view :: "db \<Rightarrow> db \<times> (error + reply)" where
  "end_election_view d =
     (case end_election d of
        (d', Inl e) \<Rightarrow> (d', Inl e)
      | (d', Inr response) \<Rightarrow> (d', Inr (Render ''admin_dashboard.html'' [])))"

text \<open>
  \<^verbatim>\<open>search_encryptions\<close> shows the votes of the first election with visible results.
\<close>

definition search_encryptions :: "db \<Rightarrow> error + reply" where
  "search_encryptions d =
     (case get_visible_election d of
        Inl e \<Rightarrow> Inl e
      | Inr None \<Rightarrow> Inr (Body ''No visible results'' 403)
      | Inr (Some visible_election) \<Rightarrow>
          if visible_election = [] then Inr (Body ''No visible results'' 403)
          else
            (case getitem visible_election ''id'' of
               Inl e \<Rightarrow> Inl e
             | Inr i \<Rightarrow>
                 (case get_votes_by_election d i of
                    Inl e \<Rightarrow> Inl e
                  | Inr votes' \<Rightarrow>
                      Inr (Render ''search_encryptions.html'' [(''votes'', PList votes')]))))"

text \<open>
  \<^verbatim>\<open>results\<close> tests what \<^verbatim>\<open>retrieve_last_election\<close> returned for truth and then reads its
  attribute \<^verbatim>\<open>decrypted_tally\<close>; a dictionary has no such attribute.
\<close>

definition results :: "db \<Rightarrow> error + reply" where
  "results d =
     (case retrieve_last_election d of
        Inl e \<Rightarrow> Inl e
      | Inr last_election \<Rightarrow>
          if last_election \<noteq> [] then Inl (AttributeError ''decrypted_tally'')
          else Inr (Body ''No results to display'' 403))"

text \<open>
  The pages that start an election follow one another: \<^verbatim>\<open>election_setup\<close>, then
  \<^verbatim>\<open>set_candidates\<close> (which renders the candidate form from the posted fields and reads
  nothing from the store), then \<^verbatim>\<open>start_election\<close>. \<open>start_election_flow\<close> is a start
  request that goes through the first page: it goes on only when that page showed the form.
\<close>

definition start_election_flow :: "db \<Rightarrow> int \<Rightarrow> start_form \<Rightarrow> db \<times> (error + reply)" where
  "start_election_flow d now form =
     (case election_setup d of
        Inl e \<Rightarrow> (d, Inl e)
      | Inr (Render t a) \<Rightarrow> start_election d now form
      | Inr r \<Rightarrow> (d, Inr r))"

text \<open>A sequence of such start requests, each with the clock of the store and its form.\<close>

definition run_flows :: "db \<Rightarrow> (int \<times> start_form) list \<Rightarrow> db" where
  "run_flows d rs = foldl (\<lambda>d' r. fst (start_election_flow d' (fst r) (snd r))) d rs"

definition at_most_one_ongoing :: "db \<Rightarrow> bool" where
  "at_most_one_ongoing d \<longleftrightarrow> length (filter ongoing (elections d)) \<le> 1"

section \<open>Sequences of calls\<close>

text \<open>
  The functions that write to the store, as calls with their arguments: the handler
  \<^verbatim>\<open>start_election\<close> and the writing methods of the data access class.
\<close>

datatype call =
    StartElection int start_form
  | EndElection
  | UpdateResultVisibility int bool
  | StoreVoteData string int int string string string datetime
  | StoreElectionData int int int pytime pytime bool bool
      "string option" "string option" "string option"
  | StoreCandidateData int "row list"

fun step :: "db \<Rightarrow> call \<Rightarrow> db" where
  "step d (StartElection now form) = fst (start_election d now form)"
| "step d EndElection = fst (end_election d)"
| "step d (UpdateResultVisibility i s) = fst (update_result_visibility d i s)"
| "step d (StoreVoteData c b e ev h r t) = fst (store_vote_data d c b e ev h r t)"
| "step d (StoreElectionData now i n st et og rv es er dt) =
     fst (store_election_data d now i n st et og rv es er dt)"
| "step d (StoreCandidateData i cs) = fst (store_candidate_data d i cs)"

definition run :: "db \<Rightarrow> call list \<Rightarrow> db" where
  "run d cs = foldl step d cs"

text \<open>
  The calls the request handlers make. \<^verbatim>\<open>store_election_data\<close> and
  \<^verbatim>\<open>store_candidate_data\<close> are called by \<^verbatim>\<open>start_election\<close> only.
\<close>

fun from_handler :: "call \<Rightarrow> bool" where
  "from_handler (StoreElectionData now i n st et og rv es er dt) = False"
| "from_handler (StoreCandidateData i cs) = False"
| "from_handler _ = True"

text \<open>
  The life of one election row: \<open>never_reopens e e'\<close> compares a row \<open>e\<close> with the row
  \<open>e'\<close> in its place later on.
\<close>

definition never_reopens :: "election \<Rightarrow> election \<Rightarrow> bool" where
  "never_reopens e e' \<longleftrightarrow>
     e_id e' = e_id e \<and> (ongoing e \<or> \<not> ongoing e') \<and>
     (results_visibility e' \<or> \<not> results_visibility e)"

text \<open>
  No election is at once ongoing and visible, and no two elections share an \<^verbatim>\<open>id\<close>.
\<close>

definition closed_before_visible :: "db \<Rightarrow> bool" where
  "closed_before_visible d \<longleftrightarrow>
     list_all (\<lambda>e. \<not> (results_visibility e \<and> ongoing e)) (elections d) \<and>
     distinct (map e_id (elections d))"

section \<open>Example stores\<close>

text \<open>Concrete rows and stores, for the instances the theorems are checked at.\<close>

definition example_election :: "int \<Rightarrow> bool \<Rightarrow> bool \<Rightarrow> int \<Rightarrow> election" where
  "example_election i og rv t =
     \<lparr>e_id = i, num_candidates = 2, start_time = ''09:00:00'', end_time = ''17:00:00'',
      ongoing = og, results_visibility = rv, encrypted_sum = None,
      combined_randomness = None, decrypted_tally = None, created_at = t\<rparr>"

definition example_vote :: "string \<Rightarrow> int \<Rightarrow> vote" where
  "example_vote c e =
     \<lparr>cnic = c, ballot_id = 7, v_election_id = e, encrypted_vote = ''ev'', vote_hash = ''h'',
      randomness = ''r'', vote_time = ''2024-03-05T01:02:03+00:00''\<rparr>"

definition example_stamp :: "int option \<Rightarrow> datetime" where
  "example_stamp z =
     \<lparr>year = 2024, month = 3, day = 5, hour = 1, minute = 2, second = 3, microsecond = 0,
      tzinfo = z\<rparr>"

definition two_elections :: db where
  "two_elections =
     \<lparr>elections = [example_election 2 True False 10, example_election 1 False False 20],
      candidates = [], votes = []\<rparr>"

text \<open>
  The scenario of the spec: an election with candidates A and B is started on the empty
  store, then ended; \<open>voted\<close> is the started election with one vote cast in it.
\<close>

definition scenario_form :: start_form where
  "scenario_form =
     \<lparr>f_election_id = Some 1, f_num_candidates = Some 2,
      f_start_time = Some \<lparr>t_hour = 9, t_minute = 0\<rparr>,
      f_end_time = Some \<lparr>t_hour = 17, t_minute = 0\<rparr>,
      f_fields = [(''candidate_name_1'', ''A''), (''candidate_id_1'', ''1''),
                  (''candidate_symbol_1'', ''x''), (''candidate_name_2'', ''B''),
                  (''candidate_id_2'', ''2''), (''candidate_symbol_2'', ''y'')]\<rparr>"

definition started :: db where
  "started = fst (start_election empty_db 10 scenario_form)"

definition ended :: db where
  "ended = fst (end_election started)"

definition voted :: db where
  "voted = started\<lparr>votes := [example_vote ''12345'' 1]\<rparr>"

definition second_form :: start_form where
  "second_form =
     \<lparr>f_election_id = Some 2, f_num_candidates = Some 1,
      f_start_time = Some \<lparr>t_hour = 9, t_minute = 0\<rparr>,
      f_end_time = Some \<lparr>t_hour = 17, t_minute = 0\<rparr>,
      f_fields = [(''candidate_name_1'', ''C''), (''candidate_id_1'', ''3''),
                  (''candidate_symbol_1'', ''z'')]\<rparr>"

text \<open>A form of three entries, of which the second has an empty symbol and the third no name.\<close>

definition blank_form :: start_form where
  "blank_form =
     \<lparr>f_election_id = Some 3, f_num_candidates = Some 3,
      f_start_time = Some \<lparr>t_hour = 9, t_minute = 0\<rparr>,
      f_end_time = Some \<lparr>t_hour = 17, t_minute = 0\<rparr>,
      f_fields = [(''candidate_name_1'', ''A''), (''candidate_symbol_1'', ''x''),
                  (''candidate_name_2'', ''B''), (''candidate_symbol_2'', ''''),
                  (''candidate_id_3'', ''9''), (''candidate_symbol_3'', ''w'')]\<rparr>"

text \<open>A store with a closed election whose results are visible, and one vote in it.\<close>

definition visible_store :: db where
  "visible_store =
     \<lparr>elections = [example_election 1 False True 10],
      candidates = [], votes = [example_vote ''12345'' 1]\<rparr>"

section \<open>Facts about the store\<close>

lemma map_of_election_row:
  "map_of (election_row e) ''id'' = Some (VInt (e_id e))"
  "map_of (election_row e) ''ongoing'' = Some (VBool (ongoing e))"
  "map_of (election_row e) ''results_visibility'' = Some (VBool (results_visibility e))"
  "map_of (election_row e) ''created_at'' = Some (VInt (created_at e))"
  by (simp_all add: election_row_def)

lemma getitem_election_row:
  "getitem (election_row e) ''id'' = Inr (VInt (e_id e))"
  "getitem (election_row e) ''ongoing'' = Inr (VBool (ongoing e))"
  "getitem (election_row e) ''results_visibility'' = Inr (VBool (results_visibility e))"
  by (simp_all add: getitem_def map_of_election_row)

lemma election_row_not_Nil: "election_row e \<noteq> []"
  by (simp add: election_row_def)

lemma column_election_row:
  "column ''id'' (election_row e) = VInt (e_id e)"
  "column ''created_at'' (election_row e) = VInt (created_at e)"
  by (simp_all add: column_def map_of_election_row)

lemma those_map_Some: "those (map (\<lambda>x. Some (f x)) xs) = Some (map f xs)"
  by (induction xs) simp_all

lemma patch_ongoing:
  "election_of_row now (patch_row [(''ongoing'', VBool b)] (election_row e))
   = Some (e\<lparr>ongoing := b\<rparr>)"
  by (cases "encrypted_sum e"; cases "combined_randomness e"; cases "decrypted_tally e")
     (simp_all add: election_of_row_def election_row_def known_keys_def election_columns_def
       patch_row_def as_int_def as_str_def as_bool_def as_opt_str_def as_int_default_def
       opt_val_def)

lemma matches_id: "matches ''id'' v (election_row e) \<longleftrightarrow> v = VInt (e_id e)"
  by (auto simp: matches_def map_of_election_row)

lemma update_elections_ongoing:
  "update_elections d [(''ongoing'', VBool b)] ''id'' (VInt i) =
     (d\<lparr>elections := map (\<lambda>e. if e_id e = i then e\<lparr>ongoing := b\<rparr> else e) (elections d)\<rparr>,
      Inr \<lparr>data = map (\<lambda>e. patch_row [(''ongoing'', VBool b)] (election_row e))
                     (filter (\<lambda>e. e_id e = i) (elections d)),
           status_code = 200\<rparr>)"
proof -
  have "(\<lambda>e. if matches ''id'' (VInt i) (election_row e)
              then election_of_row (created_at e)
                     (patch_row [(''ongoing'', VBool b)] (election_row e))
              else Some e)
        = (\<lambda>e. Some (if e_id e = i then e\<lparr>ongoing := b\<rparr> else e))"
    by (auto simp: fun_eq_iff matches_id patch_ongoing)
  moreover have "(\<lambda>e. matches ''id'' (VInt i) (election_row e)) = (\<lambda>e. e_id e = i)"
    by (auto simp: fun_eq_iff matches_id)
  ultimately show ?thesis
    by (simp add: update_elections_def those_map_Some election_columns_def known_keys_def)
qed

subsection \<open>The first row of a descending order\<close>

lemma sorted_le_last: "sorted zs \<Longrightarrow> z \<in> set zs \<Longrightarrow> z \<le> last zs"
  by (cases zs rule: rev_cases) (auto simp: sorted_append)

lemma first_desc:
  assumes "xs \<noteq> []"
  shows "\<exists>x\<in>set xs. take 1 (rev (sort_key f xs)) = [x] \<and> (\<forall>y\<in>set xs. f y \<le> f x)"
proof -
  let ?ys = "sort_key f xs"
  have ne: "?ys \<noteq> []" using assms by (metis length_0_conv length_sort)
  have s: "sorted (map f ?ys)" by simp
  have t: "take 1 (rev ?ys) = [last ?ys]"
    using ne by (cases ?ys rule: rev_cases) simp_all
  have m: "\<forall>y\<in>set xs. f y \<le> f (last ?ys)"
  proof
    fix y assume "y \<in> set xs"
    then have "f y \<in> set (map f ?ys)" by simp
    with s have "f y \<le> last (map f ?ys)" by (rule sorted_le_last)
    then show "f y \<le> f (last ?ys)" using ne by (simp add: last_map)
  qed
  have "last ?ys \<in> set xs" using ne by (metis last_in_set set_sort)
  with t m show ?thesis by blast
qed

lemma select_first_desc_empty:
  assumes "elections d = []" and "k \<in> set election_columns"
  shows "execute_select d \<lparr>q_table = ''elections'', q_select = ''*'', q_eq = None,
                           q_order_desc = Some k, q_limit = Some 1\<rparr>
         = Inr \<lparr>data = [], status_code = 200\<rparr>"
  using assms
  by (simp add: execute_select_def table_rows_def unknown_column_def
      apply_select_def apply_limit_def apply_order_def apply_eq_def)

lemma select_first_desc:
  assumes "elections d \<noteq> []" and "k \<in> set election_columns"
  shows "\<exists>e\<in>set (elections d).
           (\<forall>e'\<in>set (elections d).
              val_key (column k (election_row e')) \<le> val_key (column k (election_row e))) \<and>
           execute_select d \<lparr>q_table = ''elections'', q_select = ''*'', q_eq = None,
                             q_order_desc = Some k, q_limit = Some 1\<rparr>
           = Inr \<lparr>data = [election_row e], status_code = 200\<rparr>"
proof -
  let ?f = "\<lambda>r. val_key (column k r)"
  let ?rows = "map election_row (elections d)"
  have "?rows \<noteq> []" using assms(1) by simp
  from first_desc[OF this, of ?f]
  obtain x where x: "x \<in> set ?rows" "take 1 (rev (sort_key ?f ?rows)) = [x]"
    "\<forall>y\<in>set ?rows. ?f y \<le> ?f x" by blast
  from x(1) obtain e where e: "e \<in> set (elections d)" "x = election_row e" by auto
  have "\<forall>e'\<in>set (elections d).
          val_key (column k (election_row e')) \<le> val_key (column k (election_row e))"
    using x(3) e(2) by simp
  moreover have "execute_select d \<lparr>q_table = ''elections'', q_select = ''*'', q_eq = None,
                       q_order_desc = Some k, q_limit = Some 1\<rparr>
     = Inr \<lparr>data = [election_row e], status_code = 200\<rparr>"
    using x(2) e(2) assms(2)
    by (simp add: execute_select_def table_rows_def unknown_column_def
      apply_select_def apply_limit_def apply_order_def apply_eq_def)
  ultimately show ?thesis using e(1) by blast
qed

lemma id_is_column: "''id'' \<in> set election_columns"
  by (simp add: election_columns_def)

lemma created_at_is_column: "''created_at'' \<in> set election_columns"
  by (simp add: election_columns_def)

section \<open>Facts about the data access class\<close>

lemma vote_of_row_literal:
  "vote_of_row [(''cnic'', VStr c), (''ballot_id'', VInt b), (''election_id'', VInt e),
                (''encrypted_vote'', VStr ev), (''vote_hash'', VStr h),
                (''randomness'', VStr rn), (''time'', VStr t)]
   = Some \<lparr>cnic = c, ballot_id = b, v_election_id = e, encrypted_vote = ev,
            vote_hash = h, randomness = rn, vote_time = t\<rparr>"
  by (simp add: vote_of_row_def known_keys_def vote_columns_def as_str_def as_int_def)

lemma end_election_empty:
  "elections d = [] \<Longrightarrow>
   end_election d = (d, Inr (PDict (status_message ''error'' ''No elections found'')))"
  by (simp add: end_election_def select_first_desc_empty id_is_column del: One_nat_def)

lemma end_election_nonempty:
  assumes "elections d \<noteq> []"
  shows "\<exists>e\<in>set (elections d). (\<forall>e'\<in>set (elections d). e_id e' \<le> e_id e) \<and>
     end_election d =
       (d\<lparr>elections := map (\<lambda>x. if e_id x = e_id e then x\<lparr>ongoing := False\<rparr> else x) (elections d)\<rparr>,
        Inr (PResponse \<lparr>data = map (\<lambda>x. patch_row [(''ongoing'', VBool False)] (election_row x))
                                  (filter (\<lambda>x. e_id x = e_id e) (elections d)),
                        status_code = 200\<rparr>))"
proof -
  from select_first_desc[OF assms id_is_column]
  obtain e where e: "e \<in> set (elections d)"
    "\<forall>e'\<in>set (elections d). val_key (column ''id'' (election_row e')) \<le> val_key (column ''id'' (election_row e))"
    "execute_select d \<lparr>q_table = ''elections'', q_select = ''*'', q_eq = None,
                             q_order_desc = Some ''id'', q_limit = Some 1\<rparr>
           = Inr \<lparr>data = [election_row e], status_code = 200\<rparr>" by blast
  have "\<forall>e'\<in>set (elections d). e_id e' \<le> e_id e"
    using e(2) by (fastforce simp: column_election_row)
  moreover have "end_election d =
       (d\<lparr>elections := map (\<lambda>x. if e_id x = e_id e then x\<lparr>ongoing := False\<rparr> else x) (elections d)\<rparr>,
        Inr (PResponse \<lparr>data = map (\<lambda>x. patch_row [(''ongoing'', VBool False)] (election_row x))
                                  (filter (\<lambda>x. e_id x = e_id e) (elections d)),
                        status_code = 200\<rparr>))"
    by (simp add: end_election_def e(3) getitem_election_row update_elections_ongoing del: One_nat_def)
  ultimately show ?thesis using e(1) by blast
qed

lemma retrieve_last_election_empty:
  "elections d = [] \<Longrightarrow> retrieve_last_election d = Inr (status_message ''error'' ''No elections found'')"
  by (simp add: retrieve_last_election_def select_first_desc_empty created_at_is_column del: One_nat_def)

lemma retrieve_last_election_nonempty:
  assumes "elections d \<noteq> []"
  shows "\<exists>e\<in>set (elections d). (\<forall>e'\<in>set (elections d). created_at e' \<le> created_at e) \<and>
           retrieve_last_election d = Inr (election_row e)"
proof -
  from select_first_desc[OF assms created_at_is_column]
  obtain e where e: "e \<in> set (elections d)"
    "\<forall>e'\<in>set (elections d). val_key (column ''created_at'' (election_row e')) \<le> val_key (column ''created_at'' (election_row e))"
    "execute_select d \<lparr>q_table = ''elections'', q_select = ''*'', q_eq = None,
                             q_order_desc = Some ''created_at'', q_limit = Some 1\<rparr>
           = Inr \<lparr>data = [election_row e], status_code = 200\<rparr>" by blast
  have "\<forall>e'\<in>set (elections d). created_at e' \<le> created_at e"
    using e(2) by (fastforce simp: column_election_row)
  moreover have "retrieve_last_election d = Inr (election_row e)"
    by (simp add: retrieve_last_election_def e(3) del: One_nat_def)
  ultimately show ?thesis using e(1) by blast
qed

lemma marker_not_row: "status_message s m \<noteq> election_row e"
  by (simp add: status_message_def election_row_def)

lemma retrieve_election_data_rejected:
  "retrieve_election_data d i = Inl (APIError ''election_id'')"
  by (simp add: retrieve_election_data_def execute_select_def table_rows_def unknown_column_def
      election_columns_def)

lemma update_result_visibility_rejected:
  "update_result_visibility d i s = (d, Inl (APIError ''election_id''))"
  by (simp add: update_result_visibility_def retrieve_election_data_rejected)

lemma retrieve_last_election_returns: "\<exists>r. retrieve_last_election d = Inr r"
  using retrieve_last_election_empty[of d] retrieve_last_election_nonempty[of d]
  by (cases "elections d = []") auto

lemma voter_login_post:
  "voter_login d ''POST'' form =
     (case map_of form ''cnic'' of None \<Rightarrow> Inl (BadRequest ''cnic'')
      | Some c \<Rightarrow> Inl (AttributeError ''data''))"
proof -
  obtain r where "retrieve_last_election d = Inr r"
    using retrieve_last_election_returns by blast
  then show ?thesis by (simp add: voter_login_def split: option.splits)
qed

lemma retrieve_vote_data_rejected: "retrieve_vote_data d c = Inl (APIError ''CNIC'')"
  by (simp add: retrieve_vote_data_def execute_select_def table_rows_def unknown_column_def
      vote_columns_def)

lemma any_ongoing_projection:
  "any_ongoing (map (\<lambda>e. [(''ongoing'', VBool (ongoing e))]) es) = Inr (list_ex ongoing es)"
  by (induction es) (simp_all add: getitem_def)

lemma project_ongoing: "filter (\<lambda>kv. fst kv = ''ongoing'') (election_row e) = [(''ongoing'', VBool (ongoing e))]"
  by (simp add: election_row_def)

lemma election_setup_eq:
  "election_setup d =
     Inr (if list_ex ongoing (elections d) then Body ''An election is already ongoing!'' 403
          else Render ''election_setup.html'' [])"
  by (simp add: election_setup_def execute_select_def table_rows_def unknown_column_def
      election_columns_def apply_select_def apply_limit_def apply_order_def apply_eq_def
      comp_def project_ongoing any_ongoing_projection)

lemma election_of_row_literal:
  "election_of_row now
     [(''id'', VInt i), (''num_candidates'', VInt n), (''start_time'', VStr st),
      (''end_time'', VStr et), (''ongoing'', VBool og), (''results_visibility'', VBool rv),
      (''encrypted_sum'', opt_val es), (''combined_randomness'', opt_val er),
      (''decrypted_tally'', opt_val dt)]
   = Some \<lparr>e_id = i, num_candidates = n, start_time = st, end_time = et, ongoing = og,
            results_visibility = rv, encrypted_sum = es, combined_randomness = er,
            decrypted_tally = dt, created_at = now\<rparr>"
  by (cases es; cases er; cases dt)
     (simp_all add: election_of_row_def known_keys_def election_columns_def
       as_int_def as_str_def as_bool_def as_opt_str_def as_int_default_def opt_val_def)

lemma store_election_data_eq:
  "store_election_data d now i n st et og rv es er dt =
     (let new = \<lparr>e_id = i, num_candidates = n, start_time = time_isoformat st,
                 end_time = time_isoformat et, ongoing = og, results_visibility = rv,
                 encrypted_sum = es, combined_randomness = er, decrypted_tally = dt,
                 created_at = now\<rparr>
      in if distinct (map e_id (elections d)) \<and> i \<notin> e_id ` set (elections d)
         then (d\<lparr>elections := elections d @ [new]\<rparr>,
               Inr \<lparr>data = [election_row new], status_code = 201\<rparr>)
         else (d, Inl (APIError ''duplicate key'')))"
  by (auto simp: store_election_data_def insert_elections_def election_of_row_literal Let_def)

lemma iso_example: "isoformat (example_stamp (Some 0)) = ''2024-03-05T01:02:03+00:00''"
  by code_simp

section \<open>Facts about the request handlers\<close>

lemma candidate_entry_cases:
  "candidate_entry form i =
     (if entry_kept form i
      then Some [(''name'', VStr (the (map_of form (''candidate_name_'' @ str_int i)))),
                 (''id'', opt_val (map_of form (''candidate_id_'' @ str_int i))),
                 (''symbol'', VStr (the (map_of form (''candidate_symbol_'' @ str_int i))))]
      else None)"
  by (auto simp: candidate_entry_def entry_kept_def str_truthy_def opt_val_def Let_def
      split: option.splits)

lemma candidate_data_literal:
  "candidate_data eid [(''name'', n), (''id'', c), (''symbol'', s)]
   = Inr [(''election_id'', VInt eid), (''name'', n), (''cand_id'', c), (''symbol'', s)]"
  by (simp add: candidate_data_def getitem_def)

lemma candidate_of_row_literal:
  "candidate_of_row [(''election_id'', VInt eid), (''name'', VStr n), (''cand_id'', opt_val c),
                     (''symbol'', VStr s)]
   = Some \<lparr>c_election_id = eid, name = n, cand_id = c, symbol = s\<rparr>"
  by (cases c)
     (simp_all add: candidate_of_row_def known_keys_def candidate_columns_def as_int_def
       as_str_def as_opt_str_def opt_val_def)

lemma candidate_of_entry:
  "entry_kept form i \<Longrightarrow> candidate_entry form i = Some r \<Longrightarrow>
   \<exists>r'. candidate_data eid r = Inr r' \<and> candidate_of_row r' = Some (entry_candidate eid form i)"
  unfolding candidate_entry_cases entry_candidate_def
  by (auto simp only: if_True option.inject candidate_data_literal candidate_of_row_literal)

lemma collect_entries:
  "\<exists>rows. collect (map (candidate_data eid) (List.map_filter (candidate_entry form) js)) = Inr rows \<and>
          those (map candidate_of_row rows)
            = Some (map (entry_candidate eid form) (filter (entry_kept form) js))"
proof (induction js)
  case Nil
  then show ?case by (simp add: List.map_filter_simps)
next
  case (Cons j js)
  then obtain rows where rows:
    "collect (map (candidate_data eid) (List.map_filter (candidate_entry form) js)) = Inr rows"
    "those (map candidate_of_row rows) = Some (map (entry_candidate eid form) (filter (entry_kept form) js))"
    by blast
  show ?case
  proof (cases "entry_kept form j")
    case True
    then obtain r where r: "candidate_entry form j = Some r"
      by (simp add: candidate_entry_cases)
    with True obtain r' where r': "candidate_data eid r = Inr r'"
      "candidate_of_row r' = Some (entry_candidate eid form j)"
      using candidate_of_entry by blast
    show ?thesis
      using True r r' rows by (simp add: List.map_filter_simps)
  next
    case False
    then have "candidate_entry form j = None" by (simp add: candidate_entry_cases)
    with False rows show ?thesis by (simp add: List.map_filter_simps)
  qed
qed

lemma store_candidate_data_entries:
  "store_candidate_data d eid (List.map_filter (candidate_entry form) js) =
     (d\<lparr>candidates := candidates d @ map (entry_candidate eid form) (filter (entry_kept form) js)\<rparr>,
      Inr \<lparr>data = map candidate_row (map (entry_candidate eid form) (filter (entry_kept form) js)),
           status_code = 201\<rparr>)"
proof -
  obtain rows where
    "collect (map (candidate_data eid) (List.map_filter (candidate_entry form) js)) = Inr rows"
    "those (map candidate_of_row rows) = Some (map (entry_candidate eid form) (filter (entry_kept form) js))"
    using collect_entries by blast
  then show ?thesis by (simp add: store_candidate_data_def insert_candidates_def)
qed

lemma admin_dashboard_returns: "\<exists>a. admin_dashboard d = Inr (Render ''admin_dashboard.html'' a)"
  by (simp add: admin_dashboard_def execute_select_def table_rows_def unknown_column_def)

lemma start_election_eq:
  assumes "f_election_id form = Some i" "f_num_candidates form = Some n"
    "f_start_time form = Some st" "f_end_time form = Some et"
  shows "start_election d now form =
     (if distinct (map e_id (elections d)) \<and> i \<notin> e_id ` set (elections d)
      then (let d2 = d\<lparr>elections := elections d @ [new_election now i n st et],
                       candidates := candidates d @
                         map (entry_candidate i (f_fields form))
                             (filter (entry_kept (f_fields form)) [1..n])\<rparr>
            in (d2, if filter (entry_kept (f_fields form)) [1..n] \<noteq> []
                    then admin_dashboard d2 else Inl (UnboundLocalError ''response'')))
      else (d, Inl (APIError ''duplicate key'')))"
  using assms
  by (simp add: start_election_def store_election_data_eq store_candidate_data_entries
      new_election_def Let_def election_row_not_Nil)

lemma start_election_elections:
  "elections (fst (start_election d now form)) = elections d \<or>
   (\<exists>e. elections (fst (start_election d now form)) = elections d @ [e] \<and>
        ongoing e \<and> \<not> results_visibility e \<and> e_id e \<notin> e_id ` set (elections d) \<and>
        distinct (map e_id (elections d)))"
proof (cases "\<exists>i n st et. f_election_id form = Some i \<and> f_num_candidates form = Some n \<and>
           f_start_time form = Some st \<and> f_end_time form = Some et")
  case True
  then obtain i n st et where p: "f_election_id form = Some i"
    "f_num_candidates form = Some n" "f_start_time form = Some st" "f_end_time form = Some et"
    by blast
  show ?thesis
    unfolding start_election_eq[OF p]
    by (simp add: Let_def new_election_def)
next
  case False
  then have "fst (start_election d now form) = d"
    by (auto simp: start_election_def split: option.splits)
  then show ?thesis by simp
qed

lemma start_election_votes:
  "votes (fst (start_election d now form)) = votes d"
proof (cases "\<exists>i n st et. f_election_id form = Some i \<and> f_num_candidates form = Some n \<and>
           f_start_time form = Some st \<and> f_end_time form = Some et")
  case True
  then obtain i n st et where p: "f_election_id form = Some i"
    "f_num_candidates form = Some n" "f_start_time form = Some st" "f_end_time form = Some et"
    by blast
  show ?thesis
    unfolding start_election_eq[OF p]
    by (simp add: Let_def)
next
  case False
  then have "fst (start_election d now form) = d"
    by (auto simp: start_election_def split: option.splits)
  then show ?thesis by simp
qed

lemma flow_blocked:
  "list_ex ongoing (elections d) \<Longrightarrow>
   start_election_flow d now form = (d, Inr (Body ''An election is already ongoing!'' 403))"
  by (simp add: start_election_flow_def election_setup_eq)

lemma flow_open:
  "\<not> list_ex ongoing (elections d) \<Longrightarrow> start_election_flow d now form = start_election d now form"
  by (simp add: start_election_flow_def election_setup_eq)

lemma no_ongoing_filter: "\<not> list_ex ongoing es \<Longrightarrow> filter ongoing es = []"
  by (induction es) auto

lemma flow_keeps_one:
  assumes "at_most_one_ongoing d"
  shows "at_most_one_ongoing (fst (start_election_flow d now form))"
proof (cases "list_ex ongoing (elections d)")
  case True
  then show ?thesis using assms by (simp add: flow_blocked)
next
  case False
  then have z: "filter ongoing (elections d) = []" by (rule no_ongoing_filter)
  from start_election_elections[of d now form] z show ?thesis
    by (auto simp: flow_open[OF False] at_most_one_ongoing_def)
qed

lemma run_flows_keeps_one:
  "at_most_one_ongoing d \<Longrightarrow> at_most_one_ongoing (run_flows d rs)"
  unfolding run_flows_def
  by (induction rs arbitrary: d) (simp_all add: flow_keeps_one)

lemma get_visible_election_eq:
  "get_visible_election d =
     Inr (case filter results_visibility (elections d) of [] \<Rightarrow> None
          | e # _ \<Rightarrow> Some (election_row e))"
proof -
  have "(\<lambda>r. map_of r ''results_visibility'' = Some (VBool True)) \<circ> election_row
        = results_visibility"
    by (auto simp: fun_eq_iff map_of_election_row)
  then show ?thesis
    by (simp add: get_visible_election_def execute_select_def table_rows_def
        unknown_column_def election_columns_def apply_select_def apply_limit_def
        apply_order_def apply_eq_def filter_map take_map split: list.splits)
qed

lemma map_of_vote_row_election:
  "map_of (vote_row v) ''election_id'' = Some (VInt (v_election_id v))"
  by (simp add: vote_row_def)

lemma get_votes_by_election_eq:
  "get_votes_by_election d (VInt i) =
     Inr (map vote_row
              (filter (\<lambda>v. v_election_id v = i) (votes d)))"
  by (simp add: get_votes_by_election_def execute_select_def table_rows_def
      unknown_column_def vote_columns_def apply_select_def apply_limit_def apply_order_def
      apply_eq_def filter_map comp_def map_of_vote_row_election)

lemma search_encryptions_eq:
  "search_encryptions d =
     (case filter results_visibility (elections d) of
        [] \<Rightarrow> Inr (Body ''No visible results'' 403)
      | e # _ \<Rightarrow>
          Inr (Render ''search_encryptions.html''
                 [(''votes'', PList (map vote_row
                                        (filter (\<lambda>v. v_election_id v = e_id e) (votes d))))]))"
  by (simp add: search_encryptions_def get_visible_election_eq election_row_not_Nil
      getitem_election_row get_votes_by_election_eq split: list.splits)

lemma end_election_elections:
  "elections (fst (end_election d)) = elections d \<or>
   (\<exists>i. elections (fst (end_election d))
         = map (\<lambda>x. if e_id x = i then x\<lparr>ongoing := False\<rparr> else x) (elections d))"
proof (cases "elections d = []")
  case True
  then show ?thesis by (simp add: end_election_empty)
next
  case False
  from end_election_nonempty[OF False] show ?thesis by auto
qed

lemma store_vote_data_elections:
  "elections (fst (store_vote_data d c b e ev h r t)) = elections d"
  by (simp add: store_vote_data_def insert_votes_def split: option.splits)

lemma store_candidate_data_elections:
  "elections (fst (store_candidate_data d i cs)) = elections d"
  by (simp add: store_candidate_data_def insert_candidates_def split: sum.splits option.splits)

lemma close_keeps_ids:
  "map e_id (map (\<lambda>x. if e_id x = i then x\<lparr>ongoing := False\<rparr> else x) es) = map e_id es"
  by (induction es) simp_all

lemma close_keeps_closed:
  "list_all (\<lambda>e. \<not> (results_visibility e \<and> ongoing e)) es \<Longrightarrow>
   list_all (\<lambda>e. \<not> (results_visibility e \<and> ongoing e))
     (map (\<lambda>x. if e_id x = i then x\<lparr>ongoing := False\<rparr> else x) es)"
  by (induction es) simp_all

lemma closed_before_visible_step:
  assumes "closed_before_visible d" "from_handler c"
  shows "closed_before_visible (step d c)"
proof (cases c)
  case (StartElection now form)
  from start_election_elections[of d now form] assms(1) show ?thesis
    by (auto simp: StartElection closed_before_visible_def)
next
  case EndElection
  from end_election_elections[of d] assms(1) show ?thesis
    unfolding EndElection closed_before_visible_def step.simps
    by (auto simp only: close_keeps_ids close_keeps_closed)
next
  case (UpdateResultVisibility i s)
  with assms(1) show ?thesis by (simp add: update_result_visibility_rejected)
next
  case (StoreVoteData c b e ev h r t)
  with assms(1) show ?thesis
    by (simp add: closed_before_visible_def store_vote_data_elections)
next
  case (StoreElectionData now i n st et og rv es er dt)
  with assms(2) show ?thesis by simp
next
  case (StoreCandidateData i cs)
  with assms(2) show ?thesis by simp
qed

lemma closed_before_visible_run:
  "closed_before_visible d \<Longrightarrow> list_all from_handler cs \<Longrightarrow> closed_before_visible (run d cs)"
  unfolding run_def
  by (induction cs arbitrary: d) (simp_all add: closed_before_visible_step)

lemma closed_before_visible_empty: "closed_before_visible empty_db"
  by (simp add: closed_before_visible_def empty_db_def)

lemma never_reopens_refl: "never_reopens e e"
  by (simp add: never_reopens_def)

lemma never_reopens_trans: "never_reopens a b \<Longrightarrow> never_reopens b c \<Longrightarrow> never_reopens a c"
  by (auto simp: never_reopens_def)

lemma never_reopens_same: "list_all2 never_reopens es es"
  by (simp add: list_all2_refl never_reopens_refl)

lemma never_reopens_close:
  "list_all2 never_reopens es (map (\<lambda>x. if e_id x = i then x\<lparr>ongoing := False\<rparr> else x) es)"
  by (induction es) (simp_all add: never_reopens_def)

lemma kept_unchanged:
  "elections d' = elections d \<Longrightarrow>
   \<exists>kept new. elections d' = kept @ new \<and> list_all2 never_reopens (elections d) kept"
proof -
  assume "elections d' = elections d"
  then have "elections d' = elections d @ []" by simp
  then show ?thesis using never_reopens_same by blast
qed

lemma kept_appended:
  "elections d' = elections d @ es \<Longrightarrow>
   \<exists>kept new. elections d' = kept @ new \<and> list_all2 never_reopens (elections d) kept"
  using never_reopens_same by blast

lemma kept_closed:
  "elections d' = map (\<lambda>x. if e_id x = i then x\<lparr>ongoing := False\<rparr> else x) (elections d) \<Longrightarrow>
   \<exists>kept new. elections d' = kept @ new \<and> list_all2 never_reopens (elections d) kept"
proof -
  assume "elections d' = map (\<lambda>x. if e_id x = i then x\<lparr>ongoing := False\<rparr> else x) (elections d)"
  then have "elections d' = map (\<lambda>x. if e_id x = i then x\<lparr>ongoing := False\<rparr> else x) (elections d) @ []"
    by simp
  then show ?thesis using never_reopens_close by blast
qed

lemma step_never_reopens:
  "\<exists>kept new. elections (step d c) = kept @ new \<and> list_all2 never_reopens (elections d) kept"
proof (cases c)
  case (StartElection now form)
  from start_election_elections[of d now form] show ?thesis
    unfolding StartElection step.simps
    by (elim disjE exE conjE) (erule kept_unchanged, erule kept_appended)
next
  case EndElection
  from end_election_elections[of d] show ?thesis
    unfolding EndElection step.simps
    by (elim disjE exE) (erule kept_unchanged, erule kept_closed)
next
  case (UpdateResultVisibility i s)
  show ?thesis
    unfolding UpdateResultVisibility step.simps
    by (rule kept_unchanged) (simp add: update_result_visibility_rejected)
next
  case (StoreVoteData c b e ev h r t)
  show ?thesis
    unfolding StoreVoteData step.simps
    by (rule kept_unchanged) (rule store_vote_data_elections)
next
  case (StoreElectionData now i n st et og rv es er dt)
  have "elections (fst (store_election_data d now i n st et og rv es er dt)) = elections d \<or>
        (\<exists>e. elections (fst (store_election_data d now i n st et og rv es er dt)) = elections d @ [e])"
    by (simp add: store_election_data_eq Let_def)
  then show ?thesis
    unfolding StoreElectionData step.simps
    by (elim disjE exE) (erule kept_unchanged, erule kept_appended)
next
  case (StoreCandidateData i cs)
  show ?thesis
    unfolding StoreCandidateData step.simps
    by (rule kept_unchanged) (rule store_candidate_data_elections)
qed

lemma run_never_reopens:
  "\<exists>kept new. elections (run d cs) = kept @ new \<and> list_all2 never_reopens (elections d) kept"
proof (induction cs arbitrary: d)
  case Nil
  have "elections (run d []) = elections d @ []" by (simp add: run_def)
  then show ?case using never_reopens_same by blast
next
  case (Cons c cs)
  obtain k1 n1 where s: "elections (step d c) = k1 @ n1" "list_all2 never_reopens (elections d) k1"
    using step_never_reopens by blast
  obtain k2 n2 where r: "elections (run (step d c) cs) = k2 @ n2"
    "list_all2 never_reopens (elections (step d c)) k2"
    using Cons.IH by blast
  from r(2) s(1) obtain k3 k4 where k: "k2 = k3 @ k4" "list_all2 never_reopens k1 k3"
    by (auto simp: list_all2_append1)
  have "list_all2 never_reopens (elections d) k3"
    using never_reopens_trans s(2) k(2) by (rule list_all2_trans)
  moreover have "elections (run d (c # cs)) = k3 @ (k4 @ n2)"
    using r(1) k(1) by (simp add: run_def)
  ultimately show ?case by blast
qed

section \<open>The example stores, evaluated\<close>

lemma started_eq:
  "started = \<lparr>elections = [example_election 1 True False 10],
              candidates = [\<lparr>c_election_id = 1, name = ''A'', cand_id = Some ''1'', symbol = ''x''\<rparr>,
                            \<lparr>c_election_id = 1, name = ''B'', cand_id = Some ''2'', symbol = ''y''\<rparr>],
              votes = []\<rparr>"
  by code_simp

lemma ended_eq:
  "ended = \<lparr>elections = [example_election 1 False False 10],
              candidates = [\<lparr>c_election_id = 1, name = ''A'', cand_id = Some ''1'', symbol = ''x''\<rparr>,
                            \<lparr>c_election_id = 1, name = ''B'', cand_id = Some ''2'', symbol = ''y''\<rparr>],
              votes = []\<rparr>"
  by code_simp

lemma started_twice:
  "fst (start_election started 20 second_form) =
     \<lparr>elections = [example_election 1 True False 10,
                   (example_election 2 True False 20)\<lparr>num_candidates := 1\<rparr>],
      candidates = [\<lparr>c_election_id = 1, name = ''A'', cand_id = Some ''1'', symbol = ''x''\<rparr>,
                    \<lparr>c_election_id = 1, name = ''B'', cand_id = Some ''2'', symbol = ''y''\<rparr>,
                    \<lparr>c_election_id = 2, name = ''C'', cand_id = Some ''3'', symbol = ''z''\<rparr>],
      votes = []\<rparr>"
  by code_simp

section \<open>The claims\<close>

text \<open>
  C1, as amended. The conflict check is made by \<^verbatim>\<open>election_setup\<close>, the first page of the
  start flow, not by \<^verbatim>\<open>start_election\<close>. Requested while some election has
  \<open>ongoing = True\<close>, \<^verbatim>\<open>election_setup\<close> answers with the body \<^verbatim>\<open>An election is already
  ongoing!\<close> and status 403, and a start request that goes through it ends there and
  leaves the store as it was: no election row, no candidate row. For every sequence of
  start requests that each go through \<^verbatim>\<open>election_setup\<close>, a store with at most one
  ongoing election still has at most one afterwards.
\<close>

theorem C1_guard_in_election_setup:
  "(list_ex ongoing (elections d) \<longrightarrow>
      election_setup d = Inr (Body ''An election is already ongoing!'' 403) \<and>
      start_election_flow d now form = (d, Inr (Body ''An election is already ongoing!'' 403))) \<and>
   (at_most_one_ongoing d \<longrightarrow> at_most_one_ongoing (run_flows d rs))"
  by (simp add: election_setup_eq flow_blocked run_flows_keeps_one)

text \<open>
  The claim as stated fails on \<^verbatim>\<open>start_election\<close> itself: requested while election 1 is
  ongoing, it inserts election 2 with \<open>ongoing = True\<close> and its candidate and answers with
  the dashboard.
\<close>

theorem C1_counterexample:
  "map ongoing (elections started) = [True] \<and>
   map e_id (elections (fst (start_election started 20 second_form))) = [1, 2] \<and>
   map ongoing (elections (fst (start_election started 20 second_form))) = [True, True] \<and>
   length (candidates (fst (start_election started 20 second_form)))
     = length (candidates started) + 1 \<and>
   snd (start_election started 20 second_form)
     \<noteq> Inr (Body ''An election is already ongoing!'' 403)"
proof -
  have p: "f_election_id second_form = Some 2" "f_num_candidates second_form = Some 1"
    "f_start_time second_form = Some \<lparr>t_hour = 9, t_minute = 0\<rparr>"
    "f_end_time second_form = Some \<lparr>t_hour = 17, t_minute = 0\<rparr>"
    by (simp_all add: second_form_def)
  have k: "entry_kept (f_fields second_form) 1"
    by code_simp
  have "\<exists>a. snd (start_election started 20 second_form) = Inr (Render ''admin_dashboard.html'' a)"
    unfolding start_election_eq[OF p]
    using admin_dashboard_returns by (simp add: k started_eq example_election_def Let_def)
  then have r: "snd (start_election started 20 second_form)
     \<noteq> Inr (Body ''An election is already ongoing!'' 403)"
    by auto
  have o: "map ongoing (elections started) = [True]"
    by (simp add: started_eq example_election_def)
  have e: "map e_id (elections (fst (start_election started 20 second_form))) = [1, 2]"
    "map ongoing (elections (fst (start_election started 20 second_form))) = [True, True]"
    unfolding started_twice by (simp_all add: example_election_def)
  have c: "length (candidates (fst (start_election started 20 second_form)))
     = length (candidates started) + 1"
    unfolding started_twice by (simp add: started_eq)
  from o e c r show ?thesis by blast
qed

theorem C1_witness:
  "list_ex ongoing (elections started) \<and>
   election_setup started = Inr (Body ''An election is already ongoing!'' 403) \<and>
   start_election_flow started 20 second_form
     = (started, Inr (Body ''An election is already ongoing!'' 403)) \<and>
   at_most_one_ongoing empty_db \<and>
   at_most_one_ongoing (run_flows empty_db [(10, scenario_form), (20, second_form)])"
  using C1_guard_in_election_setup[of started 20 second_form "[]"]
    C1_guard_in_election_setup[of empty_db 20 second_form "[(10, scenario_form), (20, second_form)]"]
  by (simp add: started_eq example_election_def empty_db_def at_most_one_ongoing_def)

text \<open>
  C2. The claim: when the latest election is ongoing and the store holds a vote of the
  requesting voter in it, \<^verbatim>\<open>voter_login\<close> shows that vote as a receipt. The code: with
  election 1 ongoing and a vote of voter 12345 stored for it, the POST of that voter ends in
  \<^verbatim>\<open>AttributeError\<close>, because the handler reads \<^verbatim>\<open>.data[0]\<close> of the dictionary
  \<^verbatim>\<open>retrieve_last_election\<close> returned.
\<close>

theorem C2_voter_login_raises:
  "map e_id (elections voted) = [1] \<and> map ongoing (elections voted) = [True] \<and>
   map cnic (votes voted) = [''12345''] \<and> map v_election_id (votes voted) = [1] \<and>
   voter_login voted ''POST'' [(''cnic'', ''12345'')] = Inl (AttributeError ''data'')"
  by (simp add: voter_login_post voted_def started_eq example_election_def example_vote_def)

text \<open>
  C3. \<^verbatim>\<open>store_vote_data\<close> called with a timestamp that carries no time zone raises
  \<^verbatim>\<open>ValueError\<close> and leaves the store as it was; called with a timestamp that carries one,
  it appends exactly the row built from its arguments to the votes table, the time stored
  as ISO 8601 text.
\<close>

theorem C3_store_vote_data_timezone:
  "store_vote_data d c b e ev h rn (ts\<lparr>tzinfo := None\<rparr>)
     = (d, Inl (ValueError ''vote_time must include timezone information.'')) \<and>
   store_vote_data d c b e ev h rn (ts\<lparr>tzinfo := Some z\<rparr>)
     = (d\<lparr>votes := votes d @
            [\<lparr>cnic = c, ballot_id = b, v_election_id = e, encrypted_vote = ev,
              vote_hash = h, randomness = rn,
              vote_time = isoformat (ts\<lparr>tzinfo := Some z\<rparr>)\<rparr>]\<rparr>,
        Inr \<lparr>data = [vote_row
                       \<lparr>cnic = c, ballot_id = b, v_election_id = e, encrypted_vote = ev,
                        vote_hash = h, randomness = rn,
                        vote_time = isoformat (ts\<lparr>tzinfo := Some z\<rparr>)\<rparr>],
             status_code = 201\<rparr>)"
  by (simp add: store_vote_data_def insert_votes_def vote_of_row_literal)

theorem C3_witness:
  "store_vote_data empty_db ''12345'' 7 1 ''ev'' ''h'' ''r'' (example_stamp None)
     = (empty_db, Inl (ValueError ''vote_time must include timezone information.'')) \<and>
   votes (fst (store_vote_data empty_db ''12345'' 7 1 ''ev'' ''h'' ''r'' (example_stamp (Some 0))))
     = [example_vote ''12345'' 1]"
  using C3_store_vote_data_timezone[where d = empty_db and c = "''12345''" and b = 7 and e = 1
      and ev = "''ev''" and h = "''h''" and rn = "''r''" and ts = "example_stamp None" and z = 0]
    iso_example
  by (simp add: empty_db_def example_stamp_def example_vote_def)

text \<open>
  C4. The claim: \<^verbatim>\<open>update_result_visibility\<close> answers \<^verbatim>\<open>skipped\<close> for an ongoing
  election and sets \<open>results_visibility\<close> of a closed one. The code: in the scenario of the
  spec (election 1 started, then ended), the call for election 1 ends in the store's
  rejection of the lookup, which filters the elections table on a column \<^verbatim>\<open>election_id\<close>;
  the row stays invisible. The same happens while the election is still ongoing.
\<close>

theorem C4_update_result_visibility_rejected:
  "map e_id (elections ended) = [1] \<and> map ongoing (elections ended) = [False] \<and>
   map results_visibility (elections ended) = [False] \<and>
   update_result_visibility ended 1 True = (ended, Inl (APIError ''election_id'')) \<and>
   map e_id (elections started) = [1] \<and> map ongoing (elections started) = [True] \<and>
   update_result_visibility started 1 True = (started, Inl (APIError ''election_id''))"
  by (simp add: update_result_visibility_rejected ended_eq started_eq example_election_def)

text \<open>
  C5. \<^verbatim>\<open>end_election\<close> on an empty elections table returns the status dictionary
  \<^verbatim>\<open>No elections found\<close> and changes nothing. On a table that is not empty, with
  unique ids, there is an election of greatest \<^verbatim>\<open>id\<close>, and the call sets \<open>ongoing\<close> of
  that one row to false and leaves every other row, and every field of that row but
  \<open>ongoing\<close>, as it was; it returns the response of the update.
\<close>

theorem C5_end_election:
  "(elections d = [] \<longrightarrow>
      end_election d = (d, Inr (PDict (status_message ''error'' ''No elections found'')))) \<and>
   (elections d \<noteq> [] \<and> distinct (map e_id (elections d)) \<longrightarrow>
      (\<exists>e\<in>set (elections d).
         (\<forall>e'\<in>set (elections d). e_id e' \<le> e_id e) \<and>
         fst (end_election d) =
           d\<lparr>elections := map (\<lambda>x. if x = e then x\<lparr>ongoing := False\<rparr> else x) (elections d)\<rparr> \<and>
         (\<exists>r. snd (end_election d) = Inr (PResponse r))))"
proof (intro conjI impI)
  assume "elections d = []"
  then show "end_election d = (d, Inr (PDict (status_message ''error'' ''No elections found'')))"
    by (rule end_election_empty)
next
  assume a: "elections d \<noteq> [] \<and> distinct (map e_id (elections d))"
  then obtain e where e: "e \<in> set (elections d)" "\<forall>e'\<in>set (elections d). e_id e' \<le> e_id e"
    "end_election d =
       (d\<lparr>elections := map (\<lambda>x. if e_id x = e_id e then x\<lparr>ongoing := False\<rparr> else x) (elections d)\<rparr>,
        Inr (PResponse \<lparr>data = map (\<lambda>x. patch_row [(''ongoing'', VBool False)] (election_row x))
                                  (filter (\<lambda>x. e_id x = e_id e) (elections d)),
                        status_code = 200\<rparr>))"
    using end_election_nonempty by blast
  have inj: "inj_on e_id (set (elections d))" using a by (simp add: distinct_map)
  have "map (\<lambda>x. if e_id x = e_id e then x\<lparr>ongoing := False\<rparr> else x) (elections d)
      = map (\<lambda>x. if x = e then x\<lparr>ongoing := False\<rparr> else x) (elections d)"
    using inj e(1) by (intro map_cong refl) (auto dest: inj_onD)
  with e show "\<exists>e\<in>set (elections d).
         (\<forall>e'\<in>set (elections d). e_id e' \<le> e_id e) \<and>
         fst (end_election d) =
           d\<lparr>elections := map (\<lambda>x. if x = e then x\<lparr>ongoing := False\<rparr> else x) (elections d)\<rparr> \<and>
         (\<exists>r. snd (end_election d) = Inr (PResponse r))"
    by (intro bexI[of _ e]) simp_all
qed

theorem C5_witness:
  "elections two_elections \<noteq> [] \<and> distinct (map e_id (elections two_elections)) \<and>
   elections (fst (end_election two_elections))
     = [example_election 2 False False 10, example_election 1 False False 20] \<and>
   end_election empty_db = (empty_db, Inr (PDict (status_message ''error'' ''No elections found'')))"
proof -
  have h: "elections two_elections \<noteq> [] \<and> distinct (map e_id (elections two_elections))"
    by (simp add: two_elections_def example_election_def)
  with C5_end_election[of two_elections]
  obtain e where e: "e \<in> set (elections two_elections)"
      "\<forall>e'\<in>set (elections two_elections). e_id e' \<le> e_id e"
      "fst (end_election two_elections) =
         two_elections\<lparr>elections := map (\<lambda>x. if x = e then x\<lparr>ongoing := False\<rparr> else x) (elections two_elections)\<rparr>"
    by blast
  from e(1,2) have "e = example_election 2 True False 10"
    by (auto simp: two_elections_def example_election_def)
  with e(3) have "elections (fst (end_election two_elections))
     = [example_election 2 False False 10, example_election 1 False False 20]"
    by (simp add: two_elections_def example_election_def)
  moreover have "end_election empty_db = (empty_db, Inr (PDict (status_message ''error'' ''No elections found'')))"
    using C5_end_election[of empty_db] by (simp add: empty_db_def)
  ultimately show ?thesis using h by simp
qed

text \<open>
  C6. The claim: \<^verbatim>\<open>retrieve_vote_data\<close> answers \<^verbatim>\<open>None\<close> while the voter has no vote in
  the election, and the inserted row right after \<^verbatim>\<open>store_vote_data\<close>. The code: the lookup
  filters the votes table on a column \<^verbatim>\<open>CNIC\<close>, while \<^verbatim>\<open>store_vote_data\<close> writes the
  voter's number under \<^verbatim>\<open>cnic\<close>; the store rejects the lookup on the empty store, and
  rejects it again after the vote of voter 12345 in election 1 has been stored.
\<close>

theorem C6_lookup_rejected:
  "votes empty_db = [] \<and>
   retrieve_vote_data empty_db ''12345'' = Inl (APIError ''CNIC'') \<and>
   votes (fst (store_vote_data empty_db ''12345'' 7 1 ''ev'' ''h'' ''r'' (example_stamp (Some 0))))
     = [example_vote ''12345'' 1] \<and>
   retrieve_vote_data
     (fst (store_vote_data empty_db ''12345'' 7 1 ''ev'' ''h'' ''r'' (example_stamp (Some 0))))
     ''12345''
     = Inl (APIError ''CNIC'')"
  using iso_example
  by (simp add: retrieve_vote_data_rejected store_vote_data_def insert_votes_def
      vote_of_row_literal empty_db_def example_stamp_def example_vote_def)

text \<open>
  C7. When \<^verbatim>\<open>start_election\<close> ends with a reply (the dashboard), the four form fields
  converted, the elections table has grown by exactly one row, with \<open>ongoing = True\<close>,
  \<open>results_visibility = False\<close> and the three tally columns null; the candidates table
  has grown by one row per entry \<open>1..num_candidates\<close> of the form whose name and symbol are
  both present and not empty, in order, and by nothing for any other entry; there is at
  least one such entry; the votes table is as it was.
\<close>

theorem C7_start_election_rows:
  assumes "start_election d now form = (d', Inr reply)"
  shows "\<exists>i n st et.
           f_election_id form = Some i \<and> f_num_candidates form = Some n \<and>
           f_start_time form = Some st \<and> f_end_time form = Some et \<and>
           elections d' = elections d @
             [\<lparr>e_id = i, num_candidates = n, start_time = time_isoformat st,
               end_time = time_isoformat et, ongoing = True, results_visibility = False,
               encrypted_sum = None, combined_randomness = None, decrypted_tally = None,
               created_at = now\<rparr>] \<and>
           candidates d' = candidates d @
             map (entry_candidate i (f_fields form))
                 (filter (entry_kept (f_fields form)) [1..n]) \<and>
           filter (entry_kept (f_fields form)) [1..n] \<noteq> [] \<and>
           votes d' = votes d"
proof -
  from assms obtain i n st et where p: "f_election_id form = Some i"
    "f_num_candidates form = Some n" "f_start_time form = Some st" "f_end_time form = Some et"
    by (auto simp: start_election_def split: option.splits)
  from assms show ?thesis
    unfolding start_election_eq[OF p]
    by (auto simp: p Let_def new_election_def split: if_splits)
qed

theorem C7_witness:
  "(\<exists>a. start_election empty_db 10 blank_form
        = (fst (start_election empty_db 10 blank_form), Inr (Render ''admin_dashboard.html'' a))) \<and>
   map (\<lambda>e. (e_id e, ongoing e, results_visibility e, encrypted_sum e, combined_randomness e,
              decrypted_tally e))
       (elections (fst (start_election empty_db 10 blank_form)))
     = [(3, True, False, None, None, None)] \<and>
   candidates (fst (start_election empty_db 10 blank_form))
     = [\<lparr>c_election_id = 3, name = ''A'', cand_id = None, symbol = ''x''\<rparr>]"
proof -
  have p: "f_election_id blank_form = Some 3" "f_num_candidates blank_form = Some 3"
    "f_start_time blank_form = Some \<lparr>t_hour = 9, t_minute = 0\<rparr>"
    "f_end_time blank_form = Some \<lparr>t_hour = 17, t_minute = 0\<rparr>"
    by (simp_all add: blank_form_def)
  have k: "filter (entry_kept (f_fields blank_form)) [1..3] = [1]"
    by code_simp
  have c: "entry_candidate 3 (f_fields blank_form) 1
           = \<lparr>c_election_id = 3, name = ''A'', cand_id = None, symbol = ''x''\<rparr>"
    by code_simp
  have "\<exists>a. snd (start_election empty_db 10 blank_form) = Inr (Render ''admin_dashboard.html'' a)"
    unfolding start_election_eq[OF p]
    using admin_dashboard_returns by (simp add: k empty_db_def Let_def)
  then obtain a where a: "start_election empty_db 10 blank_form
        = (fst (start_election empty_db 10 blank_form), Inr (Render ''admin_dashboard.html'' a))"
    by (metis prod.collapse)
  from C7_start_election_rows[OF a] k c a show ?thesis
    by (auto simp: blank_form_def empty_db_def)
qed

text \<open>
  C8. Take a store in which no election is at once ongoing and visible and ids are unique
  (the empty store is one), and any sequence of calls the request handlers make. Whenever
  \<^verbatim>\<open>search_encryptions\<close> then renders votes, there is an election with \<open>ongoing = False\<close>
  and \<open>results_visibility = True\<close> such that the rendered rows are exactly the votes
  stored for its id, and no ongoing election has that id.
\<close>

theorem C8_search_only_closed_visible:
  assumes "closed_before_visible d0" and "list_all from_handler cs"
    and "search_encryptions (run d0 cs) = Inr (Render t a)"
  shows "\<exists>e\<in>set (elections (run d0 cs)).
           \<not> ongoing e \<and> results_visibility e \<and>
           a = [(''votes'',
                 PList (map vote_row
                            (filter (\<lambda>v. v_election_id v = e_id e) (votes (run d0 cs)))))] \<and>
           (\<forall>e'\<in>set (elections (run d0 cs)). ongoing e' \<longrightarrow> e_id e' \<noteq> e_id e)"
proof -
  let ?d = "run d0 cs"
  have inv: "closed_before_visible ?d"
    using assms(1,2) by (rule closed_before_visible_run)
  from assms(3) obtain e rest where e: "filter results_visibility (elections ?d) = e # rest"
    "a = [(''votes'', PList (map vote_row
                            (filter (\<lambda>v. v_election_id v = e_id e) (votes ?d))))]"
    by (auto simp: search_encryptions_eq split: list.splits)
  have "e \<in> set (filter results_visibility (elections ?d))"
    by (simp add: e(1))
  then have m: "e \<in> set (elections ?d)" "results_visibility e"
    by simp_all
  with inv have c: "\<not> ongoing e"
    by (auto simp: closed_before_visible_def list_all_iff)
  have "\<forall>e'\<in>set (elections ?d). ongoing e' \<longrightarrow> e_id e' \<noteq> e_id e"
  proof (intro ballI impI notI)
    fix e' assume e': "e' \<in> set (elections ?d)" "ongoing e'" "e_id e' = e_id e"
    from inv have "inj_on e_id (set (elections ?d))"
      by (simp add: closed_before_visible_def distinct_map)
    with e' m(1) have "e' = e" by (auto dest: inj_onD)
    with e'(2) c show False by simp
  qed
  with m c e(2) show ?thesis by blast
qed

theorem C8_witness:
  "closed_before_visible visible_store \<and>
   list_all from_handler [StartElection 20 second_form, StoreVoteData ''777'' 8 2 ''ev'' ''h'' ''r'' (example_stamp (Some 0))] \<and>
   search_encryptions (run visible_store [StartElection 20 second_form, StoreVoteData ''777'' 8 2 ''ev'' ''h'' ''r'' (example_stamp (Some 0))])
     = Inr (Render ''search_encryptions.html''
              [(''votes'', PList [vote_row (example_vote ''12345'' 1)])])"
proof -
  let ?cs = "[StartElection 20 second_form, StoreVoteData ''777'' 8 2 ''ev'' ''h'' ''r'' (example_stamp (Some 0))]"
  have h1: "closed_before_visible visible_store"
    by (simp add: closed_before_visible_def visible_store_def example_election_def)
  have h2: "list_all from_handler ?cs" by simp
  have h3: "search_encryptions (run visible_store ?cs)
     = Inr (Render ''search_encryptions.html''
              [(''votes'', PList [vote_row (example_vote ''12345'' 1)])])"
    by code_simp
  from C8_search_only_closed_visible[OF h1 h2 h3] h1 h2 h3 show ?thesis by simp
qed

text \<open>
  C9. \<^verbatim>\<open>retrieve_last_election\<close> returns, when the elections table is not empty, the row
  of an election whose \<^verbatim>\<open>created_at\<close> is the greatest; on an empty table it returns the
  status dictionary with status \<^verbatim>\<open>error\<close> and message \<^verbatim>\<open>No elections found\<close>. That
  dictionary is not empty, is the row of no election, and carries the key \<^verbatim>\<open>status\<close>,
  which no election row has.
\<close>

theorem C9_retrieve_last_election:
  "(elections d \<noteq> [] \<longrightarrow>
      (\<exists>e\<in>set (elections d). (\<forall>e'\<in>set (elections d). created_at e' \<le> created_at e) \<and>
           retrieve_last_election d = Inr (election_row e))) \<and>
   (elections d = [] \<longrightarrow>
      retrieve_last_election d = Inr (status_message ''error'' ''No elections found'')) \<and>
   status_message ''error'' ''No elections found'' \<noteq> [] \<and>
   (\<forall>e. status_message ''error'' ''No elections found'' \<noteq> election_row e) \<and>
   map_of (status_message ''error'' ''No elections found'') ''status'' = Some (VStr ''error'') \<and>
   (\<forall>e. map_of (election_row e) ''status'' = None)"
  using retrieve_last_election_nonempty retrieve_last_election_empty
  by (auto simp: marker_not_row) (simp_all add: status_message_def election_row_def)

theorem C9_witness:
  "elections two_elections \<noteq> [] \<and>
   retrieve_last_election two_elections = Inr (election_row (example_election 1 False False 20)) \<and>
   elections empty_db = [] \<and>
   retrieve_last_election empty_db = Inr (status_message ''error'' ''No elections found'')"
proof -
  have h: "elections two_elections \<noteq> []" by (simp add: two_elections_def)
  with C9_retrieve_last_election[of two_elections]
  obtain e where e: "e \<in> set (elections two_elections)"
      "\<forall>e'\<in>set (elections two_elections). created_at e' \<le> created_at e"
      "retrieve_last_election two_elections = Inr (election_row e)"
    by blast
  from e(1,2) have "e = example_election 1 False False 20"
    by (auto simp: two_elections_def example_election_def)
  moreover have "retrieve_last_election empty_db = Inr (status_message ''error'' ''No elections found'')"
    using C9_retrieve_last_election[of empty_db] by (simp add: empty_db_def)
  ultimately show ?thesis using h e(3) by (simp add: empty_db_def)
qed

text \<open>
  C10. After any sequence of calls of the writing functions (also
  \<^verbatim>\<open>store_election_data\<close> with any status and visibility), the elections table consists of
  the rows it had, in place and with their ids, followed by new rows; and no row it had has
  gone from closed back to ongoing or from visible back to invisible.
\<close>

theorem C10_elections_never_reopen:
  "\<exists>kept new. elections (run d cs) = kept @ new \<and>
               list_all2 never_reopens (elections d) kept"
  by (rule run_never_reopens)

theorem C10_witness:
  "elections (run two_elections
      [EndElection, UpdateResultVisibility 1 True,
       StoreElectionData 30 3 1 \<lparr>t_hour = 9, t_minute = 0\<rparr> \<lparr>t_hour = 17, t_minute = 0\<rparr>
         True True None None None,
       EndElection])
     = [example_election 2 False False 10, example_election 1 False False 20,
        (example_election 3 False True 30)\<lparr>num_candidates := 1\<rparr>] \<and>
   list_all2 never_reopens (elections two_elections)
     [example_election 2 False False 10, example_election 1 False False 20]"
proof -
  let ?cs = "[EndElection, UpdateResultVisibility 1 True,
       StoreElectionData 30 3 1 \<lparr>t_hour = 9, t_minute = 0\<rparr> \<lparr>t_hour = 17, t_minute = 0\<rparr>
         True True None None None,
       EndElection]"
  have r: "elections (run two_elections ?cs)
     = [example_election 2 False False 10, example_election 1 False False 20,
        (example_election 3 False True 30)\<lparr>num_candidates := 1\<rparr>]"
    by code_simp
  from C10_elections_never_reopen[of two_elections ?cs]
  obtain kept new where k: "elections (run two_elections ?cs) = kept @ new"
    "list_all2 never_reopens (elections two_elections) kept" by blast
  from k(2) have "length kept = 2"
    by (simp add: two_elections_def list_all2_lengthD[symmetric])
  with k(1) have "kept = take 2 (elections (run two_elections ?cs))"
    by simp
  with r have "kept = [example_election 2 False False 10, example_election 1 False False 20]"
    by simp
  with k(2) r show ?thesis by simp
qed

end
